theory Spec2Isabelle
  imports Complex_Main "HOL-Library.Sublist"
begin

section \<open>Data model (shared/types/glec)\<close>

text \<open>
  An optional property \<open>p?: T\<close> is a \<open>T option\<close>, \<open>None\<close> being \<open>undefined\<close>. The
  TypeScript declarations make \<open>vehicle\<close>, \<open>vehicle.type\<close> and \<open>vehicle.fuelType\<close>
  mandatory, but the validators test for their absence, so they are optional here as
  well.

  A number that a request or a row of the factor table supplies is a real number. A
  number that the program computes is a \<open>number\<close>: a real number or NaN. Arithmetic on
  real numbers is exact: the rounding of IEEE doubles, the infinities and division by 0
  are not represented.
\<close>

datatype TransportMode = road | rail | sea | air

datatype FuelType =
  diesel | petrol | electric | hybrid | hfo | mgo | lng | jet_fuel | biodiesel | hydrogen

datatype RouteType = highway | urban | mixed | international

datatype EnergyUnit = liters | kwh_energy | kg

datatype FactorUnit = km | tkm | kg_fuel | kwh

datatype Scope = ttw | wtw

datatype Confidence = high | medium | low

datatype number = Num real | NaN

text \<open>
  The tables of the road calculator are object literals, and reading a key that the
  literal does not define but every object inherits (\<open>constructor\<close>, \<open>__proto__\<close>, ...)
  gives the inherited function or object. Normalization stores what it reads in
  \<open>vehicle.type\<close> and \<open>loadFactor\<close>, so in normalized data these two properties hold a
  \<open>slot\<close>: a value of the declared type, or the object inherited under the given name.
\<close>

datatype 'a slot = Val 'a | Inherited string

record Capacity =
  capacityWeight :: "real option"
  capacityVolume :: "real option"
  passengers :: "real option"

record 't VehicleCategory =
  vtype :: "'t option"
  subType :: "string option"
  capacity :: "Capacity option"
  fuelType :: "FuelType option"

record ('t, 'l) ActivityData =
  transportMode :: TransportMode
  vehicle :: "'t VehicleCategory option"
  distance :: "real option"
  weight :: "real option"
  volume :: "real option"
  loadFactor :: "'l option"
  emptyReturn :: "bool option"
  origin :: "string option"
  destination :: "string option"
  routeType :: "RouteType option"
  fuelConsumed :: "real option"
  energyUnit :: "EnergyUnit option"

text \<open>The activity data of a request, and the activity data after normalization.\<close>

type_synonym RequestData = "(string, real) ActivityData"

type_synonym NormalizedData = "(string slot, real slot) ActivityData"

text \<open>
  The factor that the road calculator builds from an inherited table entry has neither
  a \<open>co2Factor\<close> nor a \<open>unit\<close>.
\<close>

record EmissionFactor =
  factorId :: string
  factorMode :: TransportMode
  vehicleType :: string
  factorFuelType :: "FuelType option"
  co2Factor :: "real option"
  ch4Factor :: "real option"
  n2oFactor :: "real option"
  unit :: "FactorUnit option"
  scope :: Scope
  source :: string
  version :: string
  region :: "string option"
  updatedAt :: nat

record CalculationError =
  code :: string
  message :: string
  field :: "string option"
  suggestion :: "string option"

record Options =
  includeIndirectEmissions :: "bool option"
  roundingPrecision :: "real option"
  includeBiogenic :: "bool option"

record CalculationRequest =
  activityData :: RequestData
  options :: "Options option"

text \<open>The object returned by \<open>calculateEmissions\<close>.\<close>

record CalculatedEmissions =
  em_co2 :: number
  em_ch4 :: "number option"
  em_n2o :: "number option"
  em_total :: number
  em_directEmissions :: number
  em_indirectEmissions :: number

record ResultInput =
  inputActivityData :: NormalizedData
  emissionFactor :: EmissionFactor
  calculationMethod :: string

record Emissions =
  co2 :: number
  ch4 :: "number option"
  n2o :: "number option"
  totalCO2e :: number

record Breakdown =
  directEmissions :: number
  indirectEmissions :: number
  fuelProduction :: number
  fuelTransport :: number

record Metrics =
  emissionIntensity :: number
  fuelEfficiency :: "real option"
  loadUtilization :: "real slot"

record Metadata =
  calculatedAt :: nat
  calculationId :: string
  glecVersion :: string
  confidence :: Confidence
  assumptions :: "string list"

record EmissionCalculationResult =
  input :: ResultInput
  emissions :: Emissions
  breakdown :: Breakdown
  metrics :: Metrics
  metadata :: Metadata

text \<open>
  A thrown JavaScript error with its message: \<open>Error m\<close> is \<open>new Error(m)\<close>,
  \<open>TypeError m\<close> a TypeError of the engine.
\<close>

datatype error = Error string | TypeError string

fun errorMessage :: "error \<Rightarrow> string" where
  "errorMessage (Error m) = m"
| "errorMessage (TypeError m) = m"

text \<open>The TypeError of reading property \<open>p\<close> of \<open>undefined\<close>.\<close>

definition cannotRead :: "string \<Rightarrow> error" where
  "cannotRead p =
     TypeError (''Cannot read properties of undefined (reading '' @ [CHR 0x27] @ p @
                [CHR 0x27] @ '')'')"

section \<open>JavaScript primitives\<close>

text \<open>Truthiness of an optional number: \<open>undefined\<close> and \<open>0\<close> are falsy.\<close>

definition truthy :: "real option \<Rightarrow> bool" where
  "truthy x = (case x of None \<Rightarrow> False | Some v \<Rightarrow> v \<noteq> 0)"

text \<open>Truthiness of an optional string: \<open>undefined\<close> and the empty string are falsy.\<close>

definition truthyStr :: "string option \<Rightarrow> bool" where
  "truthyStr x = (case x of None \<Rightarrow> False | Some s \<Rightarrow> s \<noteq> [])"

text \<open>Truthiness of an optional boolean.\<close>

definition truthyBool :: "bool option \<Rightarrow> bool" where
  "truthyBool x = (case x of None \<Rightarrow> False | Some b \<Rightarrow> b)"

text \<open>Truthiness of an optional number slot: an inherited object is truthy.\<close>

definition truthySlot :: "real slot option \<Rightarrow> bool" where
  "truthySlot x =
     (case x of None \<Rightarrow> False | Some (Val v) \<Rightarrow> v \<noteq> 0 | Some (Inherited k) \<Rightarrow> True)"

text \<open>\<open>x || d\<close> on an optional number.\<close>

definition orElse :: "real option \<Rightarrow> real \<Rightarrow> real" where
  "orElse x d = (case x of None \<Rightarrow> d | Some v \<Rightarrow> if v \<noteq> 0 then v else d)"

text \<open>\<open>x || d\<close> on an optional number slot.\<close>

definition orElseSlot :: "real slot option \<Rightarrow> real \<Rightarrow> real slot" where
  "orElseSlot x d =
     (case x of
        None \<Rightarrow> Val d
      | Some (Val v) \<Rightarrow> if v \<noteq> 0 then Val v else Val d
      | Some (Inherited k) \<Rightarrow> Inherited k)"

text \<open>
  The number that arithmetic makes of an operand: \<open>undefined\<close>, a function and an
  object that is not an array all convert to NaN.
\<close>

definition ofOptional :: "real option \<Rightarrow> number" where
  "ofOptional x = (case x of None \<Rightarrow> NaN | Some v \<Rightarrow> Num v)"

definition toNumber :: "real slot \<Rightarrow> number" where
  "toNumber x = (case x of Val v \<Rightarrow> Num v | Inherited k \<Rightarrow> NaN)"

text \<open>
  \<open>*\<close>, \<open>/\<close>, \<open>+\<close> and \<open>Math.max\<close>: NaN when an operand is NaN. No divisor of the program
  is 0: each is \<open>Math.max(x, 0.1)\<close>, a load factor after \<open>|| d\<close>, a product of two
  truthy numbers, a truthy number or the length of a non-empty array.
\<close>

fun nmul :: "number \<Rightarrow> number \<Rightarrow> number" where
  "nmul (Num a) (Num b) = Num (a * b)"
| "nmul _ _ = NaN"

fun ndiv :: "number \<Rightarrow> number \<Rightarrow> number" where
  "ndiv (Num a) (Num b) = Num (a / b)"
| "ndiv _ _ = NaN"

fun nadd :: "number \<Rightarrow> number \<Rightarrow> number" where
  "nadd (Num a) (Num b) = Num (a + b)"
| "nadd _ _ = NaN"

fun nmax :: "number \<Rightarrow> number \<Rightarrow> number" where
  "nmax (Num a) (Num b) = Num (max a b)"
| "nmax _ _ = NaN"

text \<open>
  \<open>String.prototype.toLowerCase\<close> follows the case mappings of Unicode, a table that
  is part of the engine and not of the program. The engine is a parameter of the model
  and every property below holds whatever its \<open>toLowerCase\<close> does.
\<close>

record Engine =
  toLowerCase :: "string \<Rightarrow> string"

text \<open>
  The names of the properties that an object literal inherits from \<open>Object.prototype\<close>.
  Their values are functions, and for \<open>__proto__\<close> the prototype object itself: all
  truthy, none a number or a string, none with a property \<open>co2\<close> or \<open>unit\<close>.
\<close>

definition objectPrototypeNames :: "string list" where
  "objectPrototypeNames =
     [''constructor'', ''__defineGetter__'', ''__defineSetter__'', ''hasOwnProperty'',
      ''__lookupGetter__'', ''__lookupSetter__'', ''isPrototypeOf'',
      ''propertyIsEnumerable'', ''toString'', ''valueOf'', ''__proto__'',
      ''toLocaleString'']"

text \<open>\<open>literal[k]\<close> for an object literal with the given entries.\<close>

datatype 'a property = Own 'a | InheritedValue string | NotFound

definition getProperty :: "(string \<times> 'a) list \<Rightarrow> string \<Rightarrow> 'a property" where
  "getProperty literal k =
     (case map_of literal k of
        Some v \<Rightarrow> Own v
      | None \<Rightarrow> if k \<in> set objectPrototypeNames then InheritedValue k else NotFound)"

text \<open>\<open>Array.prototype.join\<close>.\<close>

fun join :: "string \<Rightarrow> string list \<Rightarrow> string" where
  "join sep [] = []"
| "join sep [x] = x"
| "join sep (x # y # ys) = x @ sep @ join sep (y # ys)"

text \<open>\<open>Number.prototype.toString(36)\<close> on a natural number.\<close>

definition digit36 :: "nat \<Rightarrow> char" where
  "digit36 n = ''0123456789abcdefghijklmnopqrstuvwxyz'' ! n"

fun toString36 :: "nat \<Rightarrow> string" where
  "toString36 n = (if n < 36 then [digit36 n] else toString36 (n div 36) @ [digit36 (n mod 36)])"

section \<open>GLEC constants\<close>

definition GLEC_VERSION :: string where
  "GLEC_VERSION = ''3.1''"

definition GWP_CO2 :: real where "GWP_CO2 = 1"
definition GWP_CH4 :: real where "GWP_CH4 = 28"
definition GWP_N2O :: real where "GWP_N2O = 265"

fun DEFAULT_LOAD_FACTORS :: "TransportMode \<Rightarrow> real" where
  "DEFAULT_LOAD_FACTORS road = 0.7"
| "DEFAULT_LOAD_FACTORS rail = 0.8"
| "DEFAULT_LOAD_FACTORS sea = 0.85"
| "DEFAULT_LOAD_FACTORS air = 0.8"

fun modeName :: "TransportMode \<Rightarrow> string" where
  "modeName road = ''road''"
| "modeName rail = ''rail''"
| "modeName sea = ''sea''"
| "modeName air = ''air''"

text \<open>\<open>this.transportMode.toUpperCase()\<close> on the four mode names.\<close>

fun modeNameUpper :: "TransportMode \<Rightarrow> string" where
  "modeNameUpper road = ''ROAD''"
| "modeNameUpper rail = ''RAIL''"
| "modeNameUpper sea = ''SEA''"
| "modeNameUpper air = ''AIR''"

section \<open>The outside world\<close>

text \<open>
  The clock and the random source, read by \<open>new Date()\<close>, \<open>Date.now()\<close> and
  \<open>Math.random().toString(36).substr(2, 5)\<close>.
\<close>

record Env =
  now :: nat
  random :: string

text \<open>A row of the table \<open>emission_factors\<close>.\<close>

record FactorRow =
  row_id :: string
  vehicle_type :: string
  fuel_type :: FuelType
  emission_factor_co2 :: real
  emission_factor_ch4 :: "real option"
  emission_factor_n2o :: "real option"
  row_unit :: FactorUnit
  row_source :: string
  row_version :: string
  row_region :: "string option"
  updated_at :: nat

text \<open>
  What the awaited query gives: the promise rejects, or it resolves to
  \<open>{ data: factors, error }\<close>.
\<close>

datatype LookupOutcome = Rejected | Resolved "string option" "FactorRow list option"

section \<open>The abstract calculator: shared helpers\<close>

text \<open>\<open>convertToCO2e(co2, ch4?, n2o?)\<close>: a gas is added only when its mass is truthy.\<close>

definition convertToCO2e :: "real \<Rightarrow> real option \<Rightarrow> real option \<Rightarrow> real" where
  "convertToCO2e c m n =
     (let total = c * GWP_CO2;
          total = (case m of Some v \<Rightarrow> if v \<noteq> 0 then total + v * GWP_CH4 else total
                   | None \<Rightarrow> total);
          total = (case n of Some v \<Rightarrow> if v \<noteq> 0 then total + v * GWP_N2O else total
                   | None \<Rightarrow> total)
      in total)"

text \<open>The mass of an optional gas, an absent gas being 0.\<close>

definition gasMass :: "real option \<Rightarrow> real" where
  "gasMass m = (case m of None \<Rightarrow> 0 | Some v \<Rightarrow> v)"

text \<open>
  \<open>convertToCO2e\<close> on computed numbers. A CO2 mass of NaN makes \<open>co2 * 1\<close> NaN, which
  no addition changes. A gas mass of NaN is falsy and is skipped like an absent one.
\<close>

definition realGas :: "number option \<Rightarrow> real option" where
  "realGas g = (case g of Some (Num v) \<Rightarrow> Some v | Some NaN \<Rightarrow> None | None \<Rightarrow> None)"

definition convertToCO2e_number :: "number \<Rightarrow> number option \<Rightarrow> number option \<Rightarrow> number" where
  "convertToCO2e_number c m n =
     (case c of Num v \<Rightarrow> Num (convertToCO2e v (realGas m) (realGas n)) | NaN \<Rightarrow> NaN)"

definition calculateIntensity :: "number \<Rightarrow> NormalizedData \<Rightarrow> number" where
  "calculateIntensity totalEmissions d =
     (case (weight d, distance d) of
        (Some w, Some dis) \<Rightarrow>
          if w \<noteq> 0 \<and> dis \<noteq> 0 then ndiv totalEmissions (Num (w * dis))
          else if dis \<noteq> 0 then ndiv totalEmissions (Num dis)
          else totalEmissions
      | (None, Some dis) \<Rightarrow> if dis \<noteq> 0 then ndiv totalEmissions (Num dis) else totalEmissions
      | (_, None) \<Rightarrow> totalEmissions)"

definition calculateFuelEfficiency :: "NormalizedData \<Rightarrow> real option" where
  "calculateFuelEfficiency d =
     (case (fuelConsumed d, distance d) of
        (Some fc, Some dis) \<Rightarrow> if fc \<noteq> 0 \<and> dis \<noteq> 0 then Some (dis / fc) else None
      | _ \<Rightarrow> None)"

definition getLoadUtilization :: "TransportMode \<Rightarrow> NormalizedData \<Rightarrow> real slot" where
  "getLoadUtilization m d = orElseSlot (loadFactor d) (DEFAULT_LOAD_FACTORS m)"

text \<open>The points of \<open>assessConfidence\<close>, before the thresholds.\<close>

definition confidenceScore :: "NormalizedData \<Rightarrow> EmissionFactor \<Rightarrow> nat" where
  "confidenceScore d factor =
     (if truthy (weight d) then 2 else 0) +
     (if truthy (distance d) then 2 else 0) +
     (if truthySlot (loadFactor d) then 1 else 0) +
     (if truthy (fuelConsumed d) then 2 else 0) +
     (if scope factor = wtw then 1 else 0) +
     (if truthyStr (region factor) then 1 else 0)"

definition assessConfidence :: "NormalizedData \<Rightarrow> EmissionFactor \<Rightarrow> Confidence" where
  "assessConfidence d factor =
     (let score = confidenceScore d factor
      in if score \<ge> 7 then high else if score \<ge> 4 then medium else low)"

text \<open>
  The text of \<open>DEFAULT_LOAD_FACTORS[mode] * 100\<close> in a template string: the products are
  70, 80, 85 and 80.
\<close>

fun loadFactorPercent :: "TransportMode \<Rightarrow> string" where
  "loadFactorPercent road = ''70''"
| "loadFactorPercent rail = ''80''"
| "loadFactorPercent sea = ''85''"
| "loadFactorPercent air = ''80''"

text \<open>\<open>EmissionCalculator.getAssumptions\<close>.\<close>

definition base_getAssumptions :: "TransportMode \<Rightarrow> NormalizedData \<Rightarrow> string list" where
  "base_getAssumptions m d =
     (if \<not> truthySlot (loadFactor d)
      then [''Load factor assumed: '' @ loadFactorPercent m @ ''%''] else []) @
     (if \<not> truthyBool (emptyReturn d) then [''No empty return trip assumed''] else [])"

definition generateCalculationId :: "Env \<Rightarrow> TransportMode \<Rightarrow> string" where
  "generateCalculationId env m = modeName m @ ''_'' @ toString36 (now env) @ ''_'' @ random env"

text \<open>The default factor's \<open>source\<close>.\<close>

definition DEFAULT_SOURCE :: string where
  "DEFAULT_SOURCE = ''GLEC Framework v3.1 - Default Values''"

text \<open>The factor built from \<open>factors[0]\<close> by the rail, sea and air calculators.\<close>

definition factorOfRow :: "TransportMode \<Rightarrow> FactorRow \<Rightarrow> EmissionFactor" where
  "factorOfRow m r =
     \<lparr> factorId = row_id r, factorMode = m, vehicleType = vehicle_type r,
       factorFuelType = Some (fuel_type r), co2Factor = Some (emission_factor_co2 r),
       ch4Factor = None, n2oFactor = None, unit = Some (row_unit r), scope = wtw,
       source = row_source r, version = row_version r, region = None,
       updatedAt = updated_at r \<rparr>"

text \<open>
  The test \<open>!error && factors && factors.length > 0\<close> of the rail, sea and air
  calculators, giving \<open>factors[0]\<close>; a rejected query is caught and logged.
\<close>

definition firstRow :: "LookupOutcome \<Rightarrow> FactorRow option" where
  "firstRow lk =
     (case lk of
        Rejected \<Rightarrow> None
      | Resolved (Some e) _ \<Rightarrow> None
      | Resolved None None \<Rightarrow> None
      | Resolved None (Some []) \<Rightarrow> None
      | Resolved None (Some (r # rs)) \<Rightarrow> Some r)"

text \<open>
  The copy \<open>{ ...data }\<close> of the request's activity data, with the vehicle and the load
  factor that normalization gives it.
\<close>

definition normalizedWith ::
  "RequestData \<Rightarrow> string slot VehicleCategory option \<Rightarrow> real slot option \<Rightarrow> NormalizedData" where
  "normalizedWith d v lf =
     \<lparr> transportMode = transportMode d, vehicle = v, distance = distance d,
       weight = weight d, volume = volume d, loadFactor = lf,
       emptyReturn = emptyReturn d, origin = origin d, destination = destination d,
       routeType = routeType d, fuelConsumed = fuelConsumed d,
       energyUnit = energyUnit d \<rparr>"

text \<open>The copy \<open>{ ...vehicle }\<close> of a vehicle with the given type.\<close>

definition vehicleWith ::
  "string VehicleCategory \<Rightarrow> string slot option \<Rightarrow> string slot VehicleCategory" where
  "vehicleWith v t =
     \<lparr> vtype = t, subType = subType v, capacity = capacity v, fuelType = fuelType v \<rparr>"

text \<open>A vehicle of a request, unchanged, as part of normalized data.\<close>

definition sameVehicle :: "string VehicleCategory \<Rightarrow> string slot VehicleCategory" where
  "sameVehicle v = vehicleWith v (map_option Val (vtype v))"

section \<open>Road calculator\<close>

definition mkError :: "string \<Rightarrow> string \<Rightarrow> string \<Rightarrow> string option \<Rightarrow> CalculationError" where
  "mkError c m f s = \<lparr> code = c, message = m, field = Some f, suggestion = s \<rparr>"

text \<open>The tests \<open>!data.distance || data.distance <= 0\<close> and \<open>!data.weight || data.weight <= 0\<close>.\<close>

definition missingOrNotPositive :: "real option \<Rightarrow> bool" where
  "missingOrNotPositive x = (case x of None \<Rightarrow> True | Some v \<Rightarrow> v = 0 \<or> v \<le> 0)"

definition road_validateInput :: "RequestData \<Rightarrow> CalculationError list" where
  "road_validateInput d =
     (if missingOrNotPositive (distance d)
      then [mkError ''INVALID_DISTANCE'' ''Distance must be provided and greater than 0''
              ''distance'' (Some ''Provide distance in kilometers'')]
      else []) @
     (if (case vehicle d of None \<Rightarrow> True | Some v \<Rightarrow> \<not> truthyStr (vtype v))
      then [mkError ''INVALID_VEHICLE'' ''Vehicle type must be specified''
              ''vehicle.type'' (Some ''Use truck, van, car, motorcycle, etc.'')]
      else []) @
     (if (case vehicle d of None \<Rightarrow> True | Some v \<Rightarrow> fuelType v = None)
      then [mkError ''INVALID_FUEL_TYPE'' ''Fuel type must be specified''
              ''vehicle.fuelType'' (Some ''Use diesel, petrol, electric, hybrid, etc.'')]
      else []) @
     (if (case weight d of None \<Rightarrow> False | Some w \<Rightarrow> w < 0)
      then [mkError ''INVALID_WEIGHT'' ''Weight cannot be negative'' ''weight'' None]
      else []) @
     (if (case loadFactor d of None \<Rightarrow> False | Some l \<Rightarrow> l < 0 \<or> l > 1)
      then [mkError ''INVALID_LOAD_FACTOR'' ''Load factor must be between 0 and 1''
              ''loadFactor'' (Some ''Use decimal format (e.g., 0.7 for 70%)'')]
      else [])"

text \<open>The object literal \<open>defaultFactors\<close>.\<close>

definition road_defaultFactors :: "(string \<times> real \<times> FactorUnit) list" where
  "road_defaultFactors =
     [(''truck'', (0.079, km)), (''van'', (0.195, km)), (''car'', (0.171, km)),
      (''motorcycle'', (0.084, km)), (''heavy_truck'', (0.125, km)),
      (''light_truck'', (0.065, km))]"

text \<open>
  \<open>defaultFactors[vehicle.type.toLowerCase()] || defaultFactors['truck']\<close>, as the pair
  of its \<open>co2\<close> and \<open>unit\<close>. An inherited entry is truthy and has neither property.
\<close>

definition road_factorData :: "Engine \<Rightarrow> string \<Rightarrow> real option \<times> FactorUnit option" where
  "road_factorData eng t =
     (case getProperty road_defaultFactors (toLowerCase eng t) of
        Own (c, u) \<Rightarrow> (Some c, Some u)
      | InheritedValue k \<Rightarrow> (None, None)
      | NotFound \<Rightarrow>
          (case getProperty road_defaultFactors ''truck'' of
             Own (c, u) \<Rightarrow> (Some c, Some u)
           | _ \<Rightarrow> (None, None)))"

definition road_getDefaultFactor ::
  "Engine \<Rightarrow> Env \<Rightarrow> string VehicleCategory option \<Rightarrow> error + EmissionFactor" where
  "road_getDefaultFactor eng env vo =
     (case vo of
        None \<Rightarrow> Inl (cannotRead ''type'')
      | Some v \<Rightarrow>
          (case vtype v of
             None \<Rightarrow> Inl (cannotRead ''toLowerCase'')
           | Some t \<Rightarrow>
               let factorData = road_factorData eng t
               in Inr \<lparr> factorId = ''default_road'', factorMode = road, vehicleType = t,
                        factorFuelType = fuelType v, co2Factor = fst factorData,
                        ch4Factor = None, n2oFactor = None, unit = snd factorData,
                        scope = wtw, source = DEFAULT_SOURCE, version = ''3.1'',
                        region = None, updatedAt = now env \<rparr>))"

text \<open>
  \<open>factors.sort((a, b) => time(b) - time(a))[0]\<close>: the first row of a stable sort by
  descending \<open>updated_at\<close>.
\<close>

definition latestFactor :: "FactorRow \<Rightarrow> FactorRow list \<Rightarrow> FactorRow" where
  "latestFactor r rs = hd (sort_key (\<lambda>x. - int (updated_at x)) (r # rs))"

definition road_factorOfRow :: "FactorRow \<Rightarrow> EmissionFactor" where
  "road_factorOfRow r =
     \<lparr> factorId = row_id r, factorMode = road, vehicleType = vehicle_type r,
       factorFuelType = Some (fuel_type r), co2Factor = Some (emission_factor_co2 r),
       ch4Factor = Some (orElse (emission_factor_ch4 r) 0),
       n2oFactor = Some (orElse (emission_factor_n2o r) 0),
       unit = Some (row_unit r), scope = wtw, source = row_source r,
       version = row_version r, region = row_region r, updatedAt = updated_at r \<rparr>"

text \<open>
  Building the query reads \<open>data.vehicle.type.toLowerCase()\<close> and
  \<open>data.vehicle.fuelType.toLowerCase()\<close> inside the \<open>try\<close>; when one of them throws, the
  query is never sent and the \<open>catch\<close> block returns the default factor.
\<close>

definition road_queryBuilt :: "RequestData \<Rightarrow> bool" where
  "road_queryBuilt d =
     (case vehicle d of None \<Rightarrow> False | Some v \<Rightarrow> vtype v \<noteq> None \<and> fuelType v \<noteq> None)"

definition road_getEmissionFactor ::
  "Engine \<Rightarrow> Env \<Rightarrow> LookupOutcome \<Rightarrow> RequestData \<Rightarrow> error + EmissionFactor" where
  "road_getEmissionFactor eng env lk d =
     (if \<not> road_queryBuilt d then road_getDefaultFactor eng env (vehicle d)
      else (case lk of
              Rejected \<Rightarrow> road_getDefaultFactor eng env (vehicle d)
            | Resolved (Some e) _ \<Rightarrow> road_getDefaultFactor eng env (vehicle d)
            | Resolved None None \<Rightarrow> road_getDefaultFactor eng env (vehicle d)
            | Resolved None (Some []) \<Rightarrow> road_getDefaultFactor eng env (vehicle d)
            | Resolved None (Some (r # rs)) \<Rightarrow> Inr (road_factorOfRow (latestFactor r rs))))"

text \<open>The object literal \<open>loadFactors\<close>.\<close>

definition road_loadFactors :: "(string \<times> real) list" where
  "road_loadFactors =
     [(''truck'', 0.7), (''van'', 0.6), (''car'', 1.0), (''motorcycle'', 1.0),
      (''heavy_truck'', 0.75), (''light_truck'', 0.65)]"

text \<open>\<open>loadFactors[vehicleType.toLowerCase()] || 0.7\<close>.\<close>

definition getDefaultLoadFactor :: "Engine \<Rightarrow> string \<Rightarrow> real slot" where
  "getDefaultLoadFactor eng t =
     (case getProperty road_loadFactors (toLowerCase eng t) of
        Own v \<Rightarrow> if v \<noteq> 0 then Val v else Val 0.7
      | InheritedValue k \<Rightarrow> Inherited k
      | NotFound \<Rightarrow> Val 0.7)"

text \<open>The object literal \<open>typeMap\<close>.\<close>

definition typeMap :: "(string \<times> string) list" where
  "typeMap =
     [(''truck'', ''truck''), (''lorry'', ''truck''), (''van'', ''van''), (''car'', ''car''),
      (''automobile'', ''car''), (''motorcycle'', ''motorcycle''),
      (''motorbike'', ''motorcycle''), (''heavy_truck'', ''heavy_truck''),
      (''heavy_goods_vehicle'', ''heavy_truck''), (''hgv'', ''heavy_truck''),
      (''light_truck'', ''light_truck''), (''light_goods_vehicle'', ''light_truck''),
      (''lgv'', ''light_truck'')]"

text \<open>\<open>typeMap[vehicleType.toLowerCase()] || vehicleType\<close>.\<close>

definition normalizeVehicleType :: "Engine \<Rightarrow> string \<Rightarrow> string slot" where
  "normalizeVehicleType eng t =
     (case getProperty typeMap (toLowerCase eng t) of
        Own s \<Rightarrow> if s \<noteq> [] then Val s else Val t
      | InheritedValue k \<Rightarrow> Inherited k
      | NotFound \<Rightarrow> Val t)"

definition road_normalizeActivityData :: "Engine \<Rightarrow> RequestData \<Rightarrow> error + NormalizedData" where
  "road_normalizeActivityData eng d =
     (case vehicle d of
        None \<Rightarrow>
          if \<not> truthy (loadFactor d) then Inl (cannotRead ''type'')
          else Inr (normalizedWith d None (map_option Val (loadFactor d)))
      | Some v \<Rightarrow>
          (case vtype v of
             None \<Rightarrow> Inl (cannotRead ''toLowerCase'')
           | Some t \<Rightarrow>
               Inr (normalizedWith d
                      (Some (vehicleWith v (Some (normalizeVehicleType eng t))))
                      (if \<not> truthy (loadFactor d) then Some (getDefaultLoadFactor eng t)
                       else map_option Val (loadFactor d)))))"

fun wtwRatios :: "FuelType \<Rightarrow> real \<times> real" where
  "wtwRatios diesel = (0.74, 0.26)"
| "wtwRatios petrol = (0.76, 0.24)"
| "wtwRatios electric = (0.0, 1.0)"
| "wtwRatios hybrid = (0.5, 0.5)"
| "wtwRatios biodiesel = (0.8, 0.2)"
| "wtwRatios hfo = (0.72, 0.28)"
| "wtwRatios mgo = (0.73, 0.27)"
| "wtwRatios lng = (0.8, 0.2)"
| "wtwRatios jet_fuel = (0.75, 0.25)"
| "wtwRatios hydrogen = (0.0, 1.0)"

text \<open>
  \<open>calculateWTWBreakdown\<close>, returning (direct, indirect). The table has an entry for
  every fuel type, so \<open>wtwRatios[fuelType] || wtwRatios.diesel\<close> falls back to diesel
  only for an undefined fuel type.
\<close>

definition calculateWTWBreakdown :: "number \<Rightarrow> FuelType option \<Rightarrow> number \<times> number" where
  "calculateWTWBreakdown totalEmissions ft =
     (let ratios = (case ft of Some f \<Rightarrow> wtwRatios f | None \<Rightarrow> wtwRatios diesel)
      in (nmul totalEmissions (Num (fst ratios)), nmul totalEmissions (Num (snd ratios))))"

text \<open>The base emissions of the road calculator, before the load factor.\<close>

definition road_baseEmissions :: "number \<Rightarrow> real option \<Rightarrow> EmissionFactor \<Rightarrow> number" where
  "road_baseEmissions dis w factor =
     (if unit factor = Some km then nmul dis (ofOptional (co2Factor factor))
      else (case w of
              Some wt \<Rightarrow>
                if unit factor = Some tkm \<and> wt \<noteq> 0
                then nmul (nmul dis (Num wt)) (ofOptional (co2Factor factor))
                else nmul dis (ofOptional (co2Factor factor))
            | None \<Rightarrow> nmul dis (ofOptional (co2Factor factor))))"

definition road_calculateEmissions ::
  "NormalizedData \<Rightarrow> EmissionFactor \<Rightarrow> error + CalculatedEmissions" where
  "road_calculateEmissions d factor =
     (case vehicle d of
        None \<Rightarrow> Inl (cannotRead ''fuelType'')
      | Some v \<Rightarrow>
          let dis = ofOptional (distance d);
              lf = orElseSlot (loadFactor d) 0.7;
              baseEmissions = road_baseEmissions dis (weight d) factor;
              loadAdjustedEmissions = ndiv baseEmissions (nmax (toNumber lf) (Num 0.1));
              totalEmissions = (if truthyBool (emptyReturn d)
                                then nmul loadAdjustedEmissions (Num 1.5)
                                else loadAdjustedEmissions);
              wtwb = calculateWTWBreakdown totalEmissions (fuelType v);
              ch4Emissions = (case ch4Factor factor of
                                Some cf \<Rightarrow>
                                  if cf \<noteq> 0 then Some (nmul (nmul dis (Num cf)) (toNumber lf))
                                  else None
                              | None \<Rightarrow> None);
              n2oEmissions = (case n2oFactor factor of
                                Some nf \<Rightarrow>
                                  if nf \<noteq> 0 then Some (nmul (nmul dis (Num nf)) (toNumber lf))
                                  else None
                              | None \<Rightarrow> None);
              totalCO2e = convertToCO2e_number totalEmissions ch4Emissions n2oEmissions
          in Inr \<lparr> em_co2 = totalEmissions, em_ch4 = ch4Emissions, em_n2o = n2oEmissions,
                   em_total = totalCO2e, em_directEmissions = fst wtwb,
                   em_indirectEmissions = snd wtwb \<rparr>)"

definition road_getAssumptions :: "NormalizedData \<Rightarrow> error + string list" where
  "road_getAssumptions d =
     (let assumptions = base_getAssumptions road d;
          assumptions = assumptions @
            (if routeType d = None then [''Mixed highway/urban route assumed''] else [])
      in case vehicle d of
           None \<Rightarrow> Inl (cannotRead ''type'')
         | Some v \<Rightarrow>
             Inr (assumptions @
                  (if vtype v = Some (Val ''truck'') \<and> capacity v = None
                   then [''Medium truck capacity assumed''] else []) @
                  (if \<not> truthy (fuelConsumed d)
                   then [''Standard fuel efficiency assumed for vehicle type''] else [])))"

section \<open>Rail, sea and air calculators\<close>

definition rail_validateInput :: "RequestData \<Rightarrow> CalculationError list" where
  "rail_validateInput d =
     (if missingOrNotPositive (distance d)
      then [mkError ''INVALID_DISTANCE'' ''Distance must be provided and greater than 0''
              ''distance'' None]
      else []) @
     (if missingOrNotPositive (weight d)
      then [mkError ''INVALID_WEIGHT''
              ''Weight (cargo tonnage) must be provided for rail transport''
              ''weight'' (Some ''Provide cargo weight in tonnes'')]
      else [])"

definition sea_validateInput :: "RequestData \<Rightarrow> CalculationError list" where
  "sea_validateInput d =
     (if missingOrNotPositive (distance d)
      then [mkError ''INVALID_DISTANCE'' ''Distance must be provided and greater than 0''
              ''distance'' None]
      else []) @
     (if missingOrNotPositive (weight d)
      then [mkError ''INVALID_WEIGHT''
              ''Weight (cargo tonnage) must be provided for sea transport'' ''weight'' None]
      else [])"

definition air_validateInput :: "RequestData \<Rightarrow> CalculationError list" where
  "air_validateInput d =
     (if missingOrNotPositive (distance d)
      then [mkError ''INVALID_DISTANCE'' ''Distance must be provided and greater than 0''
              ''distance'' None]
      else []) @
     (if missingOrNotPositive (weight d)
      then [mkError ''INVALID_WEIGHT''
              ''Weight (cargo tonnage) must be provided for air transport'' ''weight'' None]
      else [])"

definition rail_defaultFactor :: "Env \<Rightarrow> EmissionFactor" where
  "rail_defaultFactor env =
     \<lparr> factorId = ''default_rail'', factorMode = rail, vehicleType = ''freight_train'',
       factorFuelType = Some electric, co2Factor = Some 0.028, ch4Factor = None,
       n2oFactor = None, unit = Some tkm, scope = wtw, source = DEFAULT_SOURCE,
       version = ''3.1'', region = None, updatedAt = now env \<rparr>"

definition sea_defaultFactor :: "Env \<Rightarrow> EmissionFactor" where
  "sea_defaultFactor env =
     \<lparr> factorId = ''default_sea'', factorMode = sea, vehicleType = ''container_ship'',
       factorFuelType = Some hfo, co2Factor = Some 0.011, ch4Factor = None,
       n2oFactor = None, unit = Some tkm, scope = wtw, source = DEFAULT_SOURCE,
       version = ''3.1'', region = None, updatedAt = now env \<rparr>"

definition air_defaultFactor :: "Env \<Rightarrow> EmissionFactor" where
  "air_defaultFactor env =
     \<lparr> factorId = ''default_air'', factorMode = air, vehicleType = ''cargo_plane'',
       factorFuelType = Some jet_fuel, co2Factor = Some 0.602, ch4Factor = None,
       n2oFactor = None, unit = Some tkm, scope = wtw, source = DEFAULT_SOURCE,
       version = ''3.1'', region = None, updatedAt = now env \<rparr>"

definition rail_getEmissionFactor :: "Env \<Rightarrow> LookupOutcome \<Rightarrow> EmissionFactor" where
  "rail_getEmissionFactor env lk =
     (case firstRow lk of Some r \<Rightarrow> factorOfRow rail r | None \<Rightarrow> rail_defaultFactor env)"

definition sea_getEmissionFactor :: "Env \<Rightarrow> LookupOutcome \<Rightarrow> EmissionFactor" where
  "sea_getEmissionFactor env lk =
     (case firstRow lk of Some r \<Rightarrow> factorOfRow sea r | None \<Rightarrow> sea_defaultFactor env)"

definition air_getEmissionFactor :: "Env \<Rightarrow> LookupOutcome \<Rightarrow> EmissionFactor" where
  "air_getEmissionFactor env lk =
     (case firstRow lk of Some r \<Rightarrow> factorOfRow air r | None \<Rightarrow> air_defaultFactor env)"

text \<open>\<open>{ ...data, loadFactor: data.loadFactor || d }\<close>.\<close>

definition withLoadFactorOr :: "RequestData \<Rightarrow> real \<Rightarrow> NormalizedData" where
  "withLoadFactorOr d dflt =
     normalizedWith d (map_option sameVehicle (vehicle d)) (Some (Val (orElse (loadFactor d) dflt)))"

definition rail_normalizeActivityData :: "RequestData \<Rightarrow> NormalizedData" where
  "rail_normalizeActivityData d = withLoadFactorOr d 0.8"

definition sea_normalizeActivityData :: "RequestData \<Rightarrow> NormalizedData" where
  "sea_normalizeActivityData d = withLoadFactorOr d 0.85"

definition air_normalizeActivityData :: "RequestData \<Rightarrow> NormalizedData" where
  "air_normalizeActivityData d = withLoadFactorOr d 0.8"

text \<open>\<open>distance * weight\<close> under the two non-null assertions.\<close>

definition tonneKm :: "NormalizedData \<Rightarrow> number" where
  "tonneKm d = nmul (ofOptional (distance d)) (ofOptional (weight d))"

definition rail_calculateEmissions :: "NormalizedData \<Rightarrow> EmissionFactor \<Rightarrow> CalculatedEmissions" where
  "rail_calculateEmissions d factor =
     (let baseEmissions = nmul (tonneKm d) (ofOptional (co2Factor factor));
          lf = orElseSlot (loadFactor d) 0.8;
          adjustedEmissions = ndiv baseEmissions (toNumber lf)
      in \<lparr> em_co2 = adjustedEmissions, em_ch4 = None, em_n2o = None,
           em_total = adjustedEmissions,
           em_directEmissions = nmul adjustedEmissions (Num 0.1),
           em_indirectEmissions = nmul adjustedEmissions (Num 0.9) \<rparr>)"

definition sea_calculateEmissions :: "NormalizedData \<Rightarrow> EmissionFactor \<Rightarrow> CalculatedEmissions" where
  "sea_calculateEmissions d factor =
     (let baseEmissions = nmul (tonneKm d) (ofOptional (co2Factor factor));
          lf = orElseSlot (loadFactor d) 0.85;
          adjustedEmissions = ndiv baseEmissions (toNumber lf)
      in \<lparr> em_co2 = adjustedEmissions, em_ch4 = None, em_n2o = None,
           em_total = adjustedEmissions,
           em_directEmissions = nmul adjustedEmissions (Num 0.72),
           em_indirectEmissions = nmul adjustedEmissions (Num 0.28) \<rparr>)"

definition air_calculateEmissions :: "NormalizedData \<Rightarrow> EmissionFactor \<Rightarrow> CalculatedEmissions" where
  "air_calculateEmissions d factor =
     (let rfi = Num 1.9;
          baseEmissions = nmul (nmul (tonneKm d) (ofOptional (co2Factor factor))) rfi;
          lf = orElseSlot (loadFactor d) 0.8;
          adjustedEmissions = ndiv baseEmissions (toNumber lf)
      in \<lparr> em_co2 = adjustedEmissions, em_ch4 = None, em_n2o = None,
           em_total = adjustedEmissions,
           em_directEmissions = nmul adjustedEmissions (Num 0.75),
           em_indirectEmissions = nmul adjustedEmissions (Num 0.25) \<rparr>)"

section \<open>The template method\<close>

text \<open>
  A calculator object holds nothing but its \<open>transportMode\<close>, so the calculator that
  \<open>CalculatorFactory.getCalculator(mode)\<close> returns is identified with the mode, and the
  abstract methods dispatch on it.
\<close>

fun validateInput :: "TransportMode \<Rightarrow> RequestData \<Rightarrow> CalculationError list" where
  "validateInput road d = road_validateInput d"
| "validateInput rail d = rail_validateInput d"
| "validateInput sea d = sea_validateInput d"
| "validateInput air d = air_validateInput d"

fun getEmissionFactor ::
  "Engine \<Rightarrow> Env \<Rightarrow> TransportMode \<Rightarrow> LookupOutcome \<Rightarrow> RequestData \<Rightarrow> error + EmissionFactor" where
  "getEmissionFactor eng env road lk d = road_getEmissionFactor eng env lk d"
| "getEmissionFactor eng env rail lk d = Inr (rail_getEmissionFactor env lk)"
| "getEmissionFactor eng env sea lk d = Inr (sea_getEmissionFactor env lk)"
| "getEmissionFactor eng env air lk d = Inr (air_getEmissionFactor env lk)"

fun normalizeActivityData ::
  "Engine \<Rightarrow> TransportMode \<Rightarrow> RequestData \<Rightarrow> error + NormalizedData" where
  "normalizeActivityData eng road d = road_normalizeActivityData eng d"
| "normalizeActivityData eng rail d = Inr (rail_normalizeActivityData d)"
| "normalizeActivityData eng sea d = Inr (sea_normalizeActivityData d)"
| "normalizeActivityData eng air d = Inr (air_normalizeActivityData d)"

fun calculateEmissions ::
  "TransportMode \<Rightarrow> NormalizedData \<Rightarrow> EmissionFactor \<Rightarrow> error + CalculatedEmissions" where
  "calculateEmissions road d factor = road_calculateEmissions d factor"
| "calculateEmissions rail d factor = Inr (rail_calculateEmissions d factor)"
| "calculateEmissions sea d factor = Inr (sea_calculateEmissions d factor)"
| "calculateEmissions air d factor = Inr (air_calculateEmissions d factor)"

fun getAssumptions :: "TransportMode \<Rightarrow> NormalizedData \<Rightarrow> error + string list" where
  "getAssumptions road d = road_getAssumptions d"
| "getAssumptions rail d = Inr (base_getAssumptions rail d)"
| "getAssumptions sea d = Inr (base_getAssumptions sea d)"
| "getAssumptions air d = Inr (base_getAssumptions air d)"

text \<open>
  \<open>buildResult\<close>. No calculator returns \<open>fuelProduction\<close> or \<open>fuelTransport\<close>, so
  \<open>emissions.fuelProduction || 0\<close> and \<open>emissions.fuelTransport || 0\<close> are 0.
\<close>

definition buildResult ::
  "Env \<Rightarrow> TransportMode \<Rightarrow> NormalizedData \<Rightarrow> EmissionFactor \<Rightarrow> CalculatedEmissions \<Rightarrow>
   CalculationRequest \<Rightarrow> error + EmissionCalculationResult" where
  "buildResult env m d factor em request =
     (case getAssumptions m d of
        Inl e \<Rightarrow> Inl e
      | Inr assumed \<Rightarrow>
          Inr \<lparr> input = \<lparr> inputActivityData = d, emissionFactor = factor,
                          calculationMethod =
                            ''GLEC_'' @ modeNameUpper m @ ''_v'' @ GLEC_VERSION \<rparr>,
                 emissions = \<lparr> co2 = em_co2 em, ch4 = em_ch4 em, n2o = em_n2o em,
                               totalCO2e = em_total em \<rparr>,
                 breakdown = \<lparr> directEmissions = em_directEmissions em,
                               indirectEmissions = em_indirectEmissions em,
                               fuelProduction = Num 0, fuelTransport = Num 0 \<rparr>,
                 metrics = \<lparr> emissionIntensity = calculateIntensity (em_total em) d,
                             fuelEfficiency = calculateFuelEfficiency d,
                             loadUtilization = getLoadUtilization m d \<rparr>,
                 metadata = \<lparr> calculatedAt = now env,
                              calculationId = generateCalculationId env m,
                              glecVersion = GLEC_VERSION,
                              confidence = assessConfidence d factor,
                              assumptions = assumed \<rparr> \<rparr>)"

text \<open>The message of the error thrown on a failed validation.\<close>

definition validationMessage :: "CalculationError list \<Rightarrow> string" where
  "validationMessage errs = ''Validation failed: '' @ join '', '' (map message errs)"

text \<open>\<open>EmissionCalculator.calculate\<close>, for the calculator of mode \<open>m\<close>.\<close>

definition calculate ::
  "Engine \<Rightarrow> Env \<Rightarrow> TransportMode \<Rightarrow> LookupOutcome \<Rightarrow> CalculationRequest \<Rightarrow>
   error + EmissionCalculationResult" where
  "calculate eng env m lk request =
     (let validationErrors = validateInput m (activityData request)
      in if length validationErrors > 0 then Inl (Error (validationMessage validationErrors))
         else
           (case getEmissionFactor eng env m lk (activityData request) of
              Inl e \<Rightarrow> Inl e
            | Inr factor \<Rightarrow>
                (case normalizeActivityData eng m (activityData request) of
                   Inl e \<Rightarrow> Inl e
                 | Inr normalizedData \<Rightarrow>
                     (case calculateEmissions m normalizedData factor of
                        Inl e \<Rightarrow> Inl e
                      | Inr em \<Rightarrow> buildResult env m normalizedData factor em request))))"

section \<open>The batch route\<close>

record BatchOptions =
  aggregateResults :: "bool option"
  includeDetailedBreakdown :: "bool option"

record BatchCalculationRequest =
  calculations :: "CalculationRequest list"
  batchOptions :: "BatchOptions option"

record BatchError =
  index :: nat
  err :: string

record Aggregate =
  totalEmissions :: number
  averageIntensity :: number
  totalDistance :: real
  totalWeight :: real
  calculationCount :: nat

record Summary =
  totalRequests :: nat
  successful :: nat
  failed :: nat

record BatchResponse =
  individual :: "EmissionCalculationResult list"
  aggregate :: "Aggregate option"
  errors :: "BatchError list option"
  summary :: Summary

datatype HttpError = BadRequest

text \<open>
  The value constraints of the zod schemas; the shape of the body is given by the types.
\<close>

definition optionalInRange :: "real option \<Rightarrow> real \<Rightarrow> real \<Rightarrow> bool" where
  "optionalInRange x lo hi = (case x of None \<Rightarrow> True | Some v \<Rightarrow> lo \<le> v \<and> v \<le> hi)"

definition optionalNonnegative :: "real option \<Rightarrow> bool" where
  "optionalNonnegative x = (case x of None \<Rightarrow> True | Some v \<Rightarrow> 0 \<le> v)"

definition vehicleSchema :: "string VehicleCategory \<Rightarrow> bool" where
  "vehicleSchema v =
     ((case vtype v of None \<Rightarrow> False | Some t \<Rightarrow> length t \<ge> 1) \<and> fuelType v \<noteq> None)"

definition activityDataSchema :: "RequestData \<Rightarrow> bool" where
  "activityDataSchema d =
     ((case vehicle d of None \<Rightarrow> False | Some v \<Rightarrow> vehicleSchema v) \<and>
      (case distance d of None \<Rightarrow> False | Some x \<Rightarrow> x > 0) \<and>
      optionalNonnegative (weight d) \<and>
      optionalNonnegative (volume d) \<and>
      optionalInRange (loadFactor d) 0 1 \<and>
      optionalNonnegative (fuelConsumed d))"

definition calculationRequestSchema :: "CalculationRequest \<Rightarrow> bool" where
  "calculationRequestSchema r =
     (activityDataSchema (activityData r) \<and>
      (case options r of None \<Rightarrow> True | Some opts \<Rightarrow> optionalInRange (roundingPrecision opts) 0 6))"

definition batchCalculationSchema :: "BatchCalculationRequest \<Rightarrow> bool" where
  "batchCalculationSchema b =
     (length (calculations b) \<ge> 1 \<and> length (calculations b) \<le> 100 \<and>
      list_all calculationRequestSchema (calculations b))"

text \<open>
  The clock, the random source and the outcome of the factor query met by the item at
  each index of a batch.
\<close>

type_synonym World = "nat \<Rightarrow> Env \<times> LookupOutcome"

text \<open>What the body of the loop computes for the request at index \<open>i\<close>.\<close>

definition processItem ::
  "Engine \<Rightarrow> World \<Rightarrow> nat \<Rightarrow> CalculationRequest \<Rightarrow> error + EmissionCalculationResult" where
  "processItem eng w i request =
     calculate eng (fst (w i)) (transportMode (activityData request)) (snd (w i)) request"

text \<open>
  The loop \<open>for (let i = 0; i < calculations.length; i++)\<close>, on the requests from index
  \<open>i\<close> on, with the arrays \<open>results\<close> and \<open>errors\<close> collected so far.
\<close>

fun processCalculations ::
  "Engine \<Rightarrow> World \<Rightarrow> CalculationRequest list \<Rightarrow> nat \<Rightarrow>
   (nat \<times> EmissionCalculationResult) list \<Rightarrow> BatchError list \<Rightarrow>
   (nat \<times> EmissionCalculationResult) list \<times> BatchError list" where
  "processCalculations eng w [] i results errs = (results, errs)"
| "processCalculations eng w (request # rest) i results errs =
     (case processItem eng w i request of
        Inr result \<Rightarrow> processCalculations eng w rest (Suc i) (results @ [(i, result)]) errs
      | Inl e \<Rightarrow>
          processCalculations eng w rest (Suc i) results
            (errs @ [\<lparr> index = i, err = errorMessage e \<rparr>]))"

definition aggregateRequested :: "BatchCalculationRequest \<Rightarrow> bool" where
  "aggregateRequested b =
     (case batchOptions b of None \<Rightarrow> False | Some opts \<Rightarrow> truthyBool (aggregateResults opts))"

definition aggregateOf :: "(nat \<times> EmissionCalculationResult) list \<Rightarrow> Aggregate" where
  "aggregateOf results =
     \<lparr> totalEmissions =
         foldl (\<lambda>sum r. nadd sum (totalCO2e (emissions (snd r)))) (Num 0) results,
       averageIntensity =
         ndiv (foldl (\<lambda>sum r. nadd sum (emissionIntensity (metrics (snd r)))) (Num 0) results)
              (Num (real (length results))),
       totalDistance =
         foldl (\<lambda>sum r. sum + orElse (distance (inputActivityData (input (snd r)))) 0) 0 results,
       totalWeight =
         foldl (\<lambda>sum r. sum + orElse (weight (inputActivityData (input (snd r)))) 0) 0 results,
       calculationCount = length results \<rparr>"

text \<open>The handler of \<open>POST /batch\<close>, after authentication.\<close>

definition batchHandler ::
  "Engine \<Rightarrow> World \<Rightarrow> BatchCalculationRequest \<Rightarrow> HttpError + BatchResponse" where
  "batchHandler eng w body =
     (if \<not> batchCalculationSchema body then Inl BadRequest
      else
        (case processCalculations eng w (calculations body) 0 [] [] of
           (results, errs) \<Rightarrow>
             Inr \<lparr> individual = map snd results,
                    aggregate = (if aggregateRequested body \<and> length results > 0
                                 then Some (aggregateOf results) else None),
                    errors = (if length errs > 0 then Some errs else None),
                    summary = \<lparr> totalRequests = length (calculations body),
                                successful = length results,
                                failed = length errs \<rparr> \<rparr>))"

section \<open>Example requests\<close>

text \<open>
  What \<open>toLowerCase\<close> does on a string of ASCII characters, by which the examples run:
  the letters A to Z become a to z.
\<close>

definition lowerChar :: "char \<Rightarrow> char" where
  "lowerChar c =
     (case map_of (zip ''ABCDEFGHIJKLMNOPQRSTUVWXYZ'' ''abcdefghijklmnopqrstuvwxyz'') c of
        Some l \<Rightarrow> l | None \<Rightarrow> c)"

definition asciiEngine :: Engine where
  "asciiEngine = \<lparr> toLowerCase = map lowerChar \<rparr>"

definition exampleEnv :: Env where
  "exampleEnv = \<lparr> now = 1000, random = ''abcde'' \<rparr>"

text \<open>Activity data in which every optional property is undefined.\<close>

definition emptyActivity :: "TransportMode \<Rightarrow> RequestData" where
  "emptyActivity m =
     \<lparr> transportMode = m, vehicle = None, distance = None, weight = None, volume = None,
       loadFactor = None, emptyReturn = None, origin = None, destination = None,
       routeType = None, fuelConsumed = None, energyUnit = None \<rparr>"

definition vehicleOf :: "string \<Rightarrow> FuelType \<Rightarrow> string VehicleCategory" where
  "vehicleOf t f = \<lparr> vtype = Some t, subType = None, capacity = None, fuelType = Some f \<rparr>"

definition requestOf :: "RequestData \<Rightarrow> CalculationRequest" where
  "requestOf d = \<lparr> activityData = d, options = None \<rparr>"

text \<open>Scenario A: a diesel truck, 500 km, 25 t.\<close>

definition scenarioA :: RequestData where
  "scenarioA =
     (emptyActivity road)\<lparr> vehicle := Some (vehicleOf ''truck'' diesel),
                             distance := Some 500, weight := Some 25 \<rparr>"

text \<open>Scenario B: an electric train, 300 km, 50 t.\<close>

definition scenarioB :: RequestData where
  "scenarioB =
     (emptyActivity rail)\<lparr> vehicle := Some (vehicleOf ''freight_train'' electric),
                             distance := Some 300, weight := Some 50 \<rparr>"

text \<open>A road request with neither a distance nor a vehicle.\<close>

definition invalidRoad :: RequestData where
  "invalidRoad = (emptyActivity road)\<lparr> weight := Some 25 \<rparr>"

text \<open>A row of the factor table for diesel trucks, per tonne-kilometre.\<close>

definition tkmRow :: FactorRow where
  "tkmRow =
     \<lparr> row_id = ''road-truck-diesel-eu'', vehicle_type = ''truck'', fuel_type = diesel,
       emission_factor_co2 = 0.1, emission_factor_ch4 = Some 0.001,
       emission_factor_n2o = Some 0.0001, row_unit = tkm, row_source = ''GLEC'',
       row_version = ''3.1'', row_region = Some ''EU'', updated_at = 500 \<rparr>"

definition tkmLookup :: LookupOutcome where
  "tkmLookup = Resolved None (Some [tkmRow])"

text \<open>A truck that carries 10 t over 100 km, half full.\<close>

definition loadedRoad :: RequestData where
  "loadedRoad =
     (emptyActivity road)\<lparr> vehicle := Some (vehicleOf ''truck'' diesel),
                             distance := Some 100, weight := Some 10, loadFactor := Some 0.5 \<rparr>"

text \<open>The same trip with a cargo weight of 0.\<close>

definition zeroWeightRoad :: RequestData where
  "zeroWeightRoad = loadedRoad\<lparr> weight := Some 0 \<rparr>"

text \<open>Scenario A with a reported fuel consumption of 0.\<close>

definition zeroFuelTruck :: RequestData where
  "zeroFuelTruck = scenarioA\<lparr> fuelConsumed := Some 0 \<rparr>"

text \<open>Scenario B with a load factor and an empty return trip.\<close>

definition returnTrain :: RequestData where
  "returnTrain = scenarioB\<lparr> loadFactor := Some 0.5, emptyReturn := Some True \<rparr>"



text \<open>Scenario A for a vehicle whose type is the name of an inherited property.\<close>

definition constructorTrip :: RequestData where
  "constructorTrip = scenarioA\<lparr> vehicle := Some (vehicleOf ''constructor'' diesel) \<rparr>"

text \<open>A rail request without a weight.\<close>

definition weightlessTrain :: RequestData where
  "weightlessTrain = scenarioB\<lparr> weight := None \<rparr>"

text \<open>Scenario A with a distance of 0.\<close>

definition zeroDistanceTruck :: RequestData where
  "zeroDistanceTruck = scenarioA\<lparr> distance := Some 0 \<rparr>"

text \<open>A batch of three requests, the second of which fails validation.\<close>

definition exampleBatch :: BatchCalculationRequest where
  "exampleBatch =
     \<lparr> calculations = [requestOf scenarioB, requestOf weightlessTrain, requestOf scenarioA],
       batchOptions = Some \<lparr> aggregateResults = Some True,
                              includeDetailedBreakdown = None \<rparr> \<rparr>"

text \<open>A batch of three requests, the second of which the request schema refuses.\<close>

definition zeroDistanceBatch :: BatchCalculationRequest where
  "zeroDistanceBatch =
     \<lparr> calculations = [requestOf scenarioB, requestOf zeroDistanceTruck, requestOf scenarioA],
       batchOptions = None \<rparr>"

text \<open>A world in which every factor query is rejected.\<close>

definition offlineWorld :: World where
  "offlineWorld i = (exampleEnv, Rejected)"

section \<open>Reading an outcome\<close>

definition resultOf :: "'e + 'a \<Rightarrow> 'a option" where
  "resultOf x = (case x of Inr r \<Rightarrow> Some r | Inl e \<Rightarrow> None)"

definition resultCO2 :: "error + EmissionCalculationResult \<Rightarrow> number option" where
  "resultCO2 x = map_option (\<lambda>r. co2 (emissions r)) (resultOf x)"

definition resultTotal :: "error + EmissionCalculationResult \<Rightarrow> number option" where
  "resultTotal x = map_option (\<lambda>r. totalCO2e (emissions r)) (resultOf x)"

definition resultCH4 :: "error + EmissionCalculationResult \<Rightarrow> number option option" where
  "resultCH4 x = map_option (\<lambda>r. ch4 (emissions r)) (resultOf x)"

definition resultN2O :: "error + EmissionCalculationResult \<Rightarrow> number option option" where
  "resultN2O x = map_option (\<lambda>r. n2o (emissions r)) (resultOf x)"

definition resultFactor :: "error + EmissionCalculationResult \<Rightarrow> EmissionFactor option" where
  "resultFactor x = map_option (\<lambda>r. emissionFactor (input r)) (resultOf x)"

definition resultData :: "error + EmissionCalculationResult \<Rightarrow> NormalizedData option" where
  "resultData x = map_option (\<lambda>r. inputActivityData (input r)) (resultOf x)"

definition resultConfidence :: "error + EmissionCalculationResult \<Rightarrow> Confidence option" where
  "resultConfidence x = map_option (\<lambda>r. confidence (metadata r)) (resultOf x)"

definition resultAssumptions :: "error + EmissionCalculationResult \<Rightarrow> string list option" where
  "resultAssumptions x = map_option (\<lambda>r. assumptions (metadata r)) (resultOf x)"

text \<open>The load factor of the normalized data.\<close>

definition normalizedLoadFactor :: "Engine \<Rightarrow> TransportMode \<Rightarrow> RequestData \<Rightarrow> real slot option" where
  "normalizedLoadFactor eng m d =
     (case normalizeActivityData eng m d of Inr nd \<Rightarrow> loadFactor nd | Inl e \<Rightarrow> None)"

text \<open>The number of requests that a batch response accounts for, and its status.\<close>

definition batchStatus :: "HttpError + BatchResponse \<Rightarrow> HttpError option" where
  "batchStatus x = (case x of Inl e \<Rightarrow> Some e | Inr resp \<Rightarrow> None)"

section \<open>The specification's wording\<close>

text \<open>
  The functions of this section are not taken from the program. They write down what the
  specification says, reading ``present'' as ``the property is defined'', to be
  compared with what the program computes.
\<close>

definition present :: "'a option \<Rightarrow> bool" where
  "present x = (x \<noteq> None)"

text \<open>
  The base emissions of a road calculation as specified: distance times factor for unit
  km; distance times weight times factor for unit tkm with a weight present; the
  distance-based formula otherwise.
\<close>

definition specRoadBase :: "real \<Rightarrow> real option \<Rightarrow> FactorUnit \<Rightarrow> real \<Rightarrow> real" where
  "specRoadBase dis w u cf =
     (if u = km then dis * cf
      else (case w of
              Some wt \<Rightarrow> if u = tkm then dis * wt * cf else dis * cf
            | None \<Rightarrow> dis * cf))"


text \<open>
  The confidence label as specified: 2 points each for the presence of weight, distance
  and fuelConsumed, 1 for loadFactor, 1 for a wtw factor, 1 for a factor with a region;
  high from 7 points, medium from 4.
\<close>

definition specConfidence :: "('t, 'l) ActivityData \<Rightarrow> EmissionFactor \<Rightarrow> Confidence" where
  "specConfidence d factor =
     (let score :: nat =
            (if present (weight d) then 2 else 0) +
            (if present (distance d) then 2 else 0) +
            (if present (fuelConsumed d) then 2 else 0) +
            (if present (loadFactor d) then 1 else 0) +
            (if scope factor = wtw then 1 else 0) +
            (if present (region factor) then 1 else 0)
      in if score \<ge> 7 then high else if score \<ge> 4 then medium else low)"

text \<open>
  The default load factor by mode and lower-cased vehicle type, as the tables of the
  calculators list it.
\<close>

fun tabledLoadFactor :: "TransportMode \<Rightarrow> string \<Rightarrow> real" where
  "tabledLoadFactor road k =
     (if k = ''truck'' then 0.7
      else if k = ''van'' then 0.6
      else if k = ''car'' then 1
      else if k = ''motorcycle'' then 1
      else if k = ''heavy_truck'' then 0.75
      else if k = ''light_truck'' then 0.65
      else 0.7)"
| "tabledLoadFactor rail k = 0.8"
| "tabledLoadFactor sea k = 0.85"
| "tabledLoadFactor air k = 0.8"

text \<open>The vehicle type of a request in lower case, the empty string when there is none.\<close>

definition loweredType :: "Engine \<Rightarrow> RequestData \<Rightarrow> string" where
  "loweredType eng d =
     (case vehicle d of
        None \<Rightarrow> []
      | Some v \<Rightarrow> (case vtype v of None \<Rightarrow> [] | Some t \<Rightarrow> toLowerCase eng t))"

text \<open>
  Whether the lower-cased vehicle type of a request is the name of a property that the
  tables of the road calculator inherit.
\<close>

definition inheritedType :: "Engine \<Rightarrow> RequestData \<Rightarrow> bool" where
  "inheritedType eng d = (loweredType eng d \<in> set objectPrototypeNames)"

section \<open>Properties\<close>

lemmas example_defs =
  asciiEngine_def lowerChar_def exampleEnv_def emptyActivity_def vehicleOf_def requestOf_def
  scenarioA_def scenarioB_def

lemmas js_defs =
  truthy_def truthyStr_def truthyBool_def truthySlot_def orElse_def orElseSlot_def
  ofOptional_def toNumber_def getProperty_def objectPrototypeNames_def digit36_def
  cannotRead_def

lemmas road_defs =
  road_validateInput_def missingOrNotPositive_def mkError_def road_defaultFactors_def
  road_factorData_def road_getDefaultFactor_def latestFactor_def road_factorOfRow_def
  road_queryBuilt_def road_getEmissionFactor_def road_loadFactors_def
  getDefaultLoadFactor_def typeMap_def normalizeVehicleType_def
  road_normalizeActivityData_def calculateWTWBreakdown_def road_baseEmissions_def
  road_calculateEmissions_def road_getAssumptions_def

lemmas rail_defs =
  rail_validateInput_def missingOrNotPositive_def mkError_def rail_defaultFactor_def
  rail_getEmissionFactor_def rail_normalizeActivityData_def withLoadFactorOr_def
  tonneKm_def rail_calculateEmissions_def

lemmas shared_defs =
  convertToCO2e_def convertToCO2e_number_def realGas_def GWP_CO2_def GWP_CH4_def
  GWP_N2O_def calculateIntensity_def calculateFuelEfficiency_def getLoadUtilization_def
  confidenceScore_def assessConfidence_def base_getAssumptions_def
  generateCalculationId_def DEFAULT_SOURCE_def GLEC_VERSION_def factorOfRow_def
  firstRow_def normalizedWith_def vehicleWith_def sameVehicle_def buildResult_def
  validationMessage_def calculate_def

text \<open>
  C3. The GWP conversion returns co2 * 1 + ch4 * 28 + n2o * 265 for every combination of
  inputs, an absent CH4 or N2O mass contributing 0.
\<close>

theorem convertToCO2e_formula:
  "convertToCO2e c m n = c * 1 + gasMass m * 28 + gasMass n * 265"
  by (simp add: convertToCO2e_def gasMass_def GWP_CO2_def GWP_CH4_def GWP_N2O_def
      split: option.split)

subsection \<open>The stages of a calculation that returns a result\<close>

lemma calculate_InrE:
  assumes "calculate eng env m lk request = Inr r"
  obtains factor nd em where
    "validateInput m (activityData request) = []"
    "getEmissionFactor eng env m lk (activityData request) = Inr factor"
    "normalizeActivityData eng m (activityData request) = Inr nd"
    "calculateEmissions m nd factor = Inr em"
    "buildResult env m nd factor em request = Inr r"
  using assms
  by (auto simp: calculate_def Let_def split: if_splits sum.splits)

lemma buildResult_Inr:
  assumes "buildResult env m d factor em request = Inr r"
  shows "emissions r =
           \<lparr> co2 = em_co2 em, ch4 = em_ch4 em, n2o = em_n2o em, totalCO2e = em_total em \<rparr>"
    and "directEmissions (breakdown r) = em_directEmissions em"
    and "indirectEmissions (breakdown r) = em_indirectEmissions em"
    and "inputActivityData (input r) = d"
    and "emissionFactor (input r) = factor"
    and "confidence (metadata r) = assessConfidence d factor"
    and "getAssumptions m d = Inr (assumptions (metadata r))"
  using assms
  by (auto simp: buildResult_def split: sum.splits)

lemma road_valid:
  assumes "road_validateInput d = []"
  obtains v t ft dis where "vehicle d = Some v" "vtype v = Some t" "t \<noteq> []"
    "fuelType v = Some ft" "distance d = Some dis" "dis > 0"
  using assms
  by (auto simp: road_validateInput_def missingOrNotPositive_def truthyStr_def
      split: if_splits option.splits)

lemma tonne_valid:
  assumes "m \<noteq> road" "validateInput m d = []"
  obtains dis w where "distance d = Some dis" "dis > 0" "weight d = Some w" "w > 0"
  using assms
  by (cases m)
     (auto simp: rail_validateInput_def sea_validateInput_def air_validateInput_def
        missingOrNotPositive_def split: if_splits option.splits)

text \<open>A request that passes validation gets a result: no later stage throws.\<close>

lemma calculate_succeeds:
  assumes "validateInput m (activityData request) = []"
  shows "\<exists>r. calculate eng env m lk request = Inr r"
proof (cases "m = road")
  case True
  from assms True have "road_validateInput (activityData request) = []" by simp
  then obtain v t ft dis where
    "vehicle (activityData request) = Some v" "vtype v = Some t" "fuelType v = Some ft"
    "distance (activityData request) = Some dis"
    by (rule road_valid)
  then show ?thesis using True assms
    by (auto simp: calculate_def road_getEmissionFactor_def road_getDefaultFactor_def
        road_queryBuilt_def road_normalizeActivityData_def road_calculateEmissions_def
        normalizedWith_def buildResult_def road_getAssumptions_def Let_def
        split: LookupOutcome.splits option.splits list.splits sum.splits)
next
  case False
  then show ?thesis using assms
    by (cases m) (auto simp: calculate_def buildResult_def Let_def)
qed

lemma scenarioA_valid: "road_validateInput scenarioA = []"
  by (simp add: scenarioA_def emptyActivity_def vehicleOf_def road_validateInput_def
      missingOrNotPositive_def truthyStr_def)

lemma scenarioB_valid: "rail_validateInput scenarioB = []"
  by (simp add: scenarioB_def emptyActivity_def rail_validateInput_def
      missingOrNotPositive_def)

subsection \<open>Validation failures\<close>

lemma sublist_in_suffix: "sublist x zs \<Longrightarrow> sublist x (ys @ zs)"
  by (simp add: sublist_append)

lemma sublist_join: "x \<in> set xs \<Longrightarrow> sublist x (join sep xs)"
proof (induction sep xs rule: join.induct)
  case (1 sep)
  then show ?case by simp
next
  case (2 sep y)
  then show ?case by simp
next
  case (3 sep a b ys)
  show ?case
  proof (cases "x = a")
    case True
    then show ?thesis by (simp add: sublist_append_rightI)
  next
    case False
    with 3 have "sublist x (join sep (b # ys))" by auto
    then show ?thesis by (simp add: sublist_append)
  qed
qed

lemma message_in_validationMessage:
  assumes "e \<in> set errs"
  shows "sublist (message e) (validationMessage errs)"
proof -
  from assms have "sublist (message e) (join '', '' (map message errs))"
    by (intro sublist_join) simp
  then show ?thesis
    unfolding validationMessage_def by (rule sublist_in_suffix)
qed

text \<open>
  C4. When validation produces a non-empty error list, calculate fails: it throws one
  error whose message joins the messages of all collected validation errors, so the
  message of each of them occurs in it, and no result is returned. The thrown value
  depends on neither the factor lookup nor the clock.
\<close>

theorem validation_failure_reports_all:
  assumes "validateInput m (activityData request) \<noteq> []"
  shows "calculate eng env m lk request =
           Inl (Error (validationMessage (validateInput m (activityData request)))) \<and>
         (\<forall>e \<in> set (validateInput m (activityData request)).
            sublist (message e) (validationMessage (validateInput m (activityData request))))"
  using assms by (simp add: calculate_def Let_def message_in_validationMessage)

lemma invalidRoad_errors:
  "map code (road_validateInput invalidRoad) =
     [''INVALID_DISTANCE'', ''INVALID_VEHICLE'', ''INVALID_FUEL_TYPE'']"
  by (simp add: invalidRoad_def emptyActivity_def road_validateInput_def
      missingOrNotPositive_def mkError_def)

theorem validation_failure_reports_all_witness:
  "map code (validateInput road (activityData (requestOf invalidRoad))) =
     [''INVALID_DISTANCE'', ''INVALID_VEHICLE'', ''INVALID_FUEL_TYPE''] \<and>
   calculate asciiEngine exampleEnv road Rejected (requestOf invalidRoad) =
     Inl (Error (''Validation failed: Distance must be provided and greater than 0, '' @
                 ''Vehicle type must be specified, Fuel type must be specified''))"
proof -
  have ne: "validateInput road (activityData (requestOf invalidRoad)) \<noteq> []"
    using invalidRoad_errors by (auto simp: requestOf_def)
  have "validationMessage (validateInput road (activityData (requestOf invalidRoad))) =
          ''Validation failed: Distance must be provided and greater than 0, '' @
          ''Vehicle type must be specified, Fuel type must be specified''"
    by (simp add: requestOf_def invalidRoad_def emptyActivity_def road_validateInput_def
        missingOrNotPositive_def mkError_def validationMessage_def)
  with validation_failure_reports_all[OF ne, of asciiEngine exampleEnv Rejected]
    invalidRoad_errors
  show ?thesis by (simp add: requestOf_def)
qed

subsection \<open>Inherited table entries\<close>

lemma getProperty_not_inherited:
  "k \<notin> set objectPrototypeNames \<Longrightarrow> getProperty literal k \<noteq> InheritedValue j"
  by (simp add: getProperty_def split: option.split)

lemma loweredType_Some:
  "vehicle d = Some v \<Longrightarrow> vtype v = Some t \<Longrightarrow> loweredType eng d = toLowerCase eng t"
  by (simp add: loweredType_def)

lemma truck_factor: "getProperty road_defaultFactors ''truck'' = Own (0.079, km)"
  by (simp add: getProperty_def road_defaultFactors_def)

lemma road_factorData_numeric:
  assumes "toLowerCase eng t \<notin> set objectPrototypeNames"
  shows "fst (road_factorData eng t) \<noteq> None \<and> snd (road_factorData eng t) \<noteq> None"
proof (cases "getProperty road_defaultFactors (toLowerCase eng t)")
  case (Own p)
  then show ?thesis
    by (cases p) (simp add: road_factorData_def del: not_None_eq)
next
  case (InheritedValue k)
  with getProperty_not_inherited[OF assms] show ?thesis by blast
next
  case NotFound
  then show ?thesis
    by (simp add: road_factorData_def truck_factor del: not_None_eq)
qed

lemma road_factor_numeric:
  assumes "road_getEmissionFactor eng env lk d = Inr f" and "\<not> inheritedType eng d"
  shows "\<exists>cf u. co2Factor f = Some cf \<and> unit f = Some u"
proof (cases "\<exists>row. f = road_factorOfRow row")
  case True
  then show ?thesis by (auto simp: road_factorOfRow_def)
next
  case False
  with assms(1) have g: "road_getDefaultFactor eng env (vehicle d) = Inr f"
    by (auto simp: road_getEmissionFactor_def
        split: if_splits LookupOutcome.splits option.splits list.splits)
  then obtain v t where v: "vehicle d = Some v" "vtype v = Some t"
    by (auto simp: road_getDefaultFactor_def split: option.splits)
  with assms(2) have "toLowerCase eng t \<notin> set objectPrototypeNames"
    by (simp add: inheritedType_def loweredType_def)
  from road_factorData_numeric[OF this] g v show ?thesis
    by (auto simp: road_getDefaultFactor_def Let_def)
qed

lemma getDefaultLoadFactor_table:
  assumes "toLowerCase eng t \<notin> set objectPrototypeNames"
  shows "getDefaultLoadFactor eng t = Val (tabledLoadFactor road (toLowerCase eng t))"
  using assms
  by (simp add: getDefaultLoadFactor_def getProperty_def road_loadFactors_def)

lemma tabledLoadFactor_nonzero: "tabledLoadFactor m k \<noteq> 0"
  by (cases m) simp_all

subsection \<open>The road formula\<close>

lemma road_normalize_fields:
  assumes "road_normalizeActivityData eng d = Inr nd"
  shows "distance nd = distance d" and "weight nd = weight d"
    and "emptyReturn nd = emptyReturn d"
    and "fuelConsumed nd = fuelConsumed d"
  using assms
  by (auto simp: road_normalizeActivityData_def normalizedWith_def
      split: option.splits if_splits)

lemma road_normalize_loadFactor:
  assumes "road_normalizeActivityData eng d = Inr nd" and "\<not> inheritedType eng d"
  shows "\<exists>L. loadFactor nd = Some (Val L) \<and> L \<noteq> 0 \<and>
             (\<forall>l. loadFactor d = Some l \<and> l \<noteq> 0 \<longrightarrow> L = l)"
proof (cases "truthy (loadFactor d)")
  case True
  with assms(1) show ?thesis
    by (auto simp: road_normalizeActivityData_def normalizedWith_def truthy_def
        split: option.splits)
next
  case False
  with assms(1) obtain v t where v: "vehicle d = Some v" "vtype v = Some t"
    and lf: "loadFactor nd = Some (getDefaultLoadFactor eng t)"
    by (auto simp: road_normalizeActivityData_def normalizedWith_def split: option.splits)
  from assms(2) v have "toLowerCase eng t \<notin> set objectPrototypeNames"
    by (simp add: inheritedType_def loweredType_def)
  from getDefaultLoadFactor_table[OF this] lf False show ?thesis
    by (auto simp: truthy_def tabledLoadFactor_nonzero simp del: tabledLoadFactor.simps)
qed

lemma road_calculateEmissions_co2:
  assumes "road_calculateEmissions d factor = Inr em"
    and "distance d = Some dis" and "loadFactor d = Some (Val L)" and "L \<noteq> 0"
    and "co2Factor factor = Some cf" and "unit factor = Some u"
  shows "em_co2 em =
           Num ((if u = km then dis * cf
                 else (case weight d of
                         Some w \<Rightarrow> if u = tkm \<and> w \<noteq> 0 then dis * w * cf else dis * cf
                       | None \<Rightarrow> dis * cf))
                / max L 0.1
                * (if emptyReturn d = Some True then 1.5 else 1))"
  using assms
  by (auto simp: road_calculateEmissions_def road_baseEmissions_def Let_def orElseSlot_def
      ofOptional_def toNumber_def truthyBool_def split: option.splits)

lemma loadedRoad_valid: "road_validateInput loadedRoad = []"
  by (simp add: example_defs loadedRoad_def js_defs road_defs)

text \<open>
  C1, as the program has it. For every road calculation whose lower-cased vehicle type
  is not the name of an inherited object property, the reported emissions.co2 is
  base / max(L, 0.1), times 1.5 exactly when emptyReturn is true, where L is the load
  factor after normalization (the caller's own when that is not 0) and base is
  distance * co2Factor for unit km, distance * weight * co2Factor for unit tkm with a
  weight that is present and not 0, and distance * co2Factor in every other case, a
  weight of 0 included.
\<close>

theorem road_co2_formula:
  assumes "calculate eng env road lk request = Inr r"
    and "\<not> inheritedType eng (activityData request)"
  shows "\<exists>dis L cf u.
           distance (activityData request) = Some dis \<and>
           loadFactor (inputActivityData (input r)) = Some (Val L) \<and>
           (\<forall>l. loadFactor (activityData request) = Some l \<and> l \<noteq> 0 \<longrightarrow> L = l) \<and>
           co2Factor (emissionFactor (input r)) = Some cf \<and>
           unit (emissionFactor (input r)) = Some u \<and>
           co2 (emissions r) =
             Num ((if u = km then dis * cf
                   else (case weight (activityData request) of
                           Some w \<Rightarrow> if u = tkm \<and> w \<noteq> 0 then dis * w * cf else dis * cf
                         | None \<Rightarrow> dis * cf))
                  / max L 0.1
                  * (if emptyReturn (activityData request) = Some True then 1.5 else 1))"
proof -
  from assms(1) obtain factor nd em where
    v: "validateInput road (activityData request) = []" and
    f: "getEmissionFactor eng env road lk (activityData request) = Inr factor" and
    n: "normalizeActivityData eng road (activityData request) = Inr nd" and
    em: "calculateEmissions road nd factor = Inr em" and
    b: "buildResult env road nd factor em request = Inr r"
    by (rule calculate_InrE)
  from v obtain dis where dis: "distance (activityData request) = Some dis"
    by (auto elim: road_valid)
  from n have n': "road_normalizeActivityData eng (activityData request) = Inr nd" by simp
  from road_normalize_loadFactor[OF n' assms(2)] obtain L where
    L: "loadFactor nd = Some (Val L)" "L \<noteq> 0"
       "\<forall>l. loadFactor (activityData request) = Some l \<and> l \<noteq> 0 \<longrightarrow> L = l"
    by blast
  from f have "road_getEmissionFactor eng env lk (activityData request) = Inr factor"
    by simp
  from road_factor_numeric[OF this assms(2)] obtain cf u where
    cu: "co2Factor factor = Some cf" "unit factor = Some u"
    by blast
  from em have em': "road_calculateEmissions nd factor = Inr em" by simp
  have nd_dis: "distance nd = Some dis"
    using road_normalize_fields(1)[OF n'] dis by simp
  have nd_w: "weight nd = weight (activityData request)"
    and nd_e: "emptyReturn nd = emptyReturn (activityData request)"
    using road_normalize_fields(2,3)[OF n'] by simp_all
  have echo: "inputActivityData (input r) = nd" "emissionFactor (input r) = factor"
    using buildResult_Inr(4,5)[OF b] by simp_all
  have c: "co2 (emissions r) = em_co2 em"
    using buildResult_Inr(1)[OF b] by simp
  show ?thesis
  proof (intro exI conjI)
    show "distance (activityData request) = Some dis" by fact
    show "loadFactor (inputActivityData (input r)) = Some (Val L)" using echo L by simp
    show "\<forall>l. loadFactor (activityData request) = Some l \<and> l \<noteq> 0 \<longrightarrow> L = l" by fact
    show "co2Factor (emissionFactor (input r)) = Some cf" using echo cu by simp
    show "unit (emissionFactor (input r)) = Some u" using echo cu by simp
    show "co2 (emissions r) =
             Num ((if u = km then dis * cf
                   else (case weight (activityData request) of
                           Some w \<Rightarrow> if u = tkm \<and> w \<noteq> 0 then dis * w * cf else dis * cf
                         | None \<Rightarrow> dis * cf))
                  / max L 0.1
                  * (if emptyReturn (activityData request) = Some True then 1.5 else 1))"
      using road_calculateEmissions_co2[OF em' nd_dis L(1,2) cu] unfolding c nd_w nd_e .
  qed
qed

theorem road_co2_formula_witness:
  "\<not> inheritedType asciiEngine (activityData (requestOf loadedRoad)) \<and>
   (\<exists>r. calculate asciiEngine exampleEnv road tkmLookup (requestOf loadedRoad) = Inr r \<and>
        unit (emissionFactor (input r)) = Some tkm \<and>
        co2Factor (emissionFactor (input r)) = Some 0.1 \<and>
        co2 (emissions r) = Num (100 * 10 * 0.1 / max 0.5 0.1))"
proof -
  have ni: "\<not> inheritedType asciiEngine (activityData (requestOf loadedRoad))"
    by (simp add: inheritedType_def loweredType_def example_defs loadedRoad_def
        objectPrototypeNames_def)
  have "validateInput road (activityData (requestOf loadedRoad)) = []"
    by (simp add: requestOf_def loadedRoad_valid)
  then obtain r where
    r: "calculate asciiEngine exampleEnv road tkmLookup (requestOf loadedRoad) = Inr r"
    using calculate_succeeds by blast
  then have u: "unit (emissionFactor (input r)) = Some tkm"
      "co2Factor (emissionFactor (input r)) = Some 0.1"
    by (auto simp: example_defs tkmRow_def tkmLookup_def loadedRoad_def js_defs road_defs
        shared_defs Let_def)
  have d: "distance (activityData (requestOf loadedRoad)) = Some 100"
      "weight (activityData (requestOf loadedRoad)) = Some 10"
      "loadFactor (activityData (requestOf loadedRoad)) = Some 0.5"
      "emptyReturn (activityData (requestOf loadedRoad)) = None"
    by (simp_all add: example_defs loadedRoad_def)
  from road_co2_formula[OF r ni] obtain dis L cf un where
    f: "distance (activityData (requestOf loadedRoad)) = Some dis"
       "\<forall>l. loadFactor (activityData (requestOf loadedRoad)) = Some l \<and> l \<noteq> 0 \<longrightarrow> L = l"
       "co2Factor (emissionFactor (input r)) = Some cf"
       "unit (emissionFactor (input r)) = Some un"
       "co2 (emissions r) =
          Num ((if un = km then dis * cf
                else (case weight (activityData (requestOf loadedRoad)) of
                        Some w \<Rightarrow> if un = tkm \<and> w \<noteq> 0 then dis * w * cf else dis * cf
                      | None \<Rightarrow> dis * cf))
               / max L 0.1
               * (if emptyReturn (activityData (requestOf loadedRoad)) = Some True
                  then 1.5 else 1))"
    by blast
  from f(1) d(1) have dis: "dis = 100" by simp
  from f(2)[rule_format, of "1/2"] d(3) have L: "L = 1/2" by simp
  from f(3) u(2) have cf: "cf = 1/10" by simp
  from f(4) u(1) have un: "un = tkm" by simp
  have "co2 (emissions r) = Num (100 * 10 * 0.1 / max 0.5 0.1)"
    using f(5) d unfolding dis L cf un by simp
  with r u ni show ?thesis by blast
qed

text \<open>
  C1 as stated fails for a weight that is present and 0 under a tkm factor: the
  tonne-kilometre formula gives 0, the program falls back to distance and reports 20.
\<close>

theorem tkm_zero_weight_counterexample:
  "resultCO2 (calculate asciiEngine exampleEnv road tkmLookup (requestOf zeroWeightRoad))
     = Some (Num 20) \<and>
   resultFactor (calculate asciiEngine exampleEnv road tkmLookup (requestOf zeroWeightRoad))
     = Some (road_factorOfRow tkmRow) \<and>
   unit (road_factorOfRow tkmRow) = Some tkm \<and>
   co2Factor (road_factorOfRow tkmRow) = Some 0.1 \<and>
   distance zeroWeightRoad = Some 100 \<and> weight zeroWeightRoad = Some 0 \<and>
   loadFactor zeroWeightRoad = Some 0.5 \<and> emptyReturn zeroWeightRoad = None \<and>
   specRoadBase 100 (Some 0) tkm 0.1 / max 0.5 0.1 = 0"
  by (simp add: example_defs tkmRow_def tkmLookup_def loadedRoad_def zeroWeightRoad_def
      resultOf_def resultCO2_def resultFactor_def js_defs road_defs shared_defs
      specRoadBase_def Let_def)

text \<open>
  A vehicle type that is the name of an inherited property is left out of C1 and C6:
  the tables give the inherited object, which becomes the vehicle type and the load
  factor of the normalized data; the default factor has neither factor nor unit and the
  emissions are NaN.
\<close>

lemma inherited_type_outcome:
  "inheritedType asciiEngine constructorTrip \<and>
   normalizedLoadFactor asciiEngine road constructorTrip = Some (Inherited ''constructor'') \<and>
   resultCO2 (calculate asciiEngine exampleEnv road Rejected (requestOf constructorTrip))
     = Some NaN \<and>
   map_option co2Factor
     (resultFactor (calculate asciiEngine exampleEnv road Rejected (requestOf constructorTrip)))
     = Some None"
  by (simp add: inheritedType_def loweredType_def normalizedLoadFactor_def example_defs
      constructorTrip_def resultOf_def resultCO2_def resultFactor_def js_defs road_defs
      shared_defs Let_def)

subsection \<open>Default factors and the assumption list\<close>

lemma getEmissionFactor_default:
  assumes "firstRow lk = None" and "getEmissionFactor eng env m lk d = Inr f"
  shows "factorId f = ''default_'' @ modeName m"
proof (cases m)
  case road
  with assms show ?thesis
    by (auto simp: road_getEmissionFactor_def road_getDefaultFactor_def firstRow_def Let_def
        split: if_splits option.splits LookupOutcome.splits list.splits)
next
  case rail
  with assms show ?thesis by (auto simp: rail_getEmissionFactor_def rail_defaultFactor_def)
next
  case sea
  with assms show ?thesis by (auto simp: sea_getEmissionFactor_def sea_defaultFactor_def)
next
  case air
  with assms show ?thesis by (auto simp: air_getEmissionFactor_def air_defaultFactor_def)
qed

lemma calculate_assumptions:
  assumes "calculate eng env m lk request = Inr r"
  shows "\<exists>nd. normalizeActivityData eng m (activityData request) = Inr nd \<and>
              getAssumptions m nd = Inr (assumptions (metadata r))"
proof -
  from assms obtain factor nd em where
    n: "normalizeActivityData eng m (activityData request) = Inr nd" and
    b: "buildResult env m nd factor em request = Inr r"
    by (rule calculate_InrE)
  from n buildResult_Inr(7)[OF b] show ?thesis by blast
qed

text \<open>
  C5, as the program has it. When the factor lookup fails or returns no factor, a valid
  request still gets a result, whose echoed factor is the default of the mode
  (id default_road, default_rail, default_sea or default_air); metadata.assumptions
  is the same list under every lookup outcome, so it holds no trace of the substitution.
\<close>

theorem default_factor_unrecorded:
  assumes "firstRow lk = None" and "validateInput m (activityData request) = []"
  shows "\<exists>r. calculate eng env m lk request = Inr r \<and>
             factorId (emissionFactor (input r)) = ''default_'' @ modeName m \<and>
             (\<forall>env' lk' r'. calculate eng env' m lk' request = Inr r' \<longrightarrow>
                assumptions (metadata r') = assumptions (metadata r))"
proof -
  from assms(2) obtain r where r: "calculate eng env m lk request = Inr r"
    using calculate_succeeds by blast
  from r obtain factor nd em where
    f: "getEmissionFactor eng env m lk (activityData request) = Inr factor" and
    b: "buildResult env m nd factor em request = Inr r"
    by (rule calculate_InrE)
  have "factorId (emissionFactor (input r)) = ''default_'' @ modeName m"
    using getEmissionFactor_default[OF assms(1) f] buildResult_Inr(5)[OF b] by simp
  moreover have "assumptions (metadata r') = assumptions (metadata r)"
    if "calculate eng env' m lk' request = Inr r'" for env' lk' r'
    using calculate_assumptions[OF that] calculate_assumptions[OF r] by auto
  ultimately show ?thesis using r by blast
qed

theorem default_factor_unrecorded_witness:
  "firstRow Rejected = None \<and> validateInput rail (activityData (requestOf returnTrain)) = [] \<and>
   (\<exists>r. calculate asciiEngine exampleEnv rail Rejected (requestOf returnTrain) = Inr r \<and>
        factorId (emissionFactor (input r)) = ''default_rail'' \<and>
        (\<forall>env' lk' r'.
           calculate asciiEngine env' rail lk' (requestOf returnTrain) = Inr r' \<longrightarrow>
           assumptions (metadata r') = assumptions (metadata r)))"
proof -
  have a: "firstRow Rejected = None" by (simp add: firstRow_def)
  have b: "validateInput rail (activityData (requestOf returnTrain)) = []"
    by (simp add: example_defs returnTrain_def rail_defs)
  from default_factor_unrecorded[OF a b, of asciiEngine exampleEnv] a b
  show ?thesis by simp
qed

text \<open>
  C5 as stated fails: with a load factor and an empty return given, a rail calculation on
  the default factor returns an empty assumption list.
\<close>

theorem default_factor_unrecorded_counterexample:
  "map_option factorId
     (resultFactor (calculate asciiEngine exampleEnv rail Rejected (requestOf returnTrain)))
     = Some ''default_rail'' \<and>
   resultAssumptions (calculate asciiEngine exampleEnv rail Rejected (requestOf returnTrain))
     = Some []"
  by (simp add: example_defs returnTrain_def resultOf_def resultFactor_def
      resultAssumptions_def js_defs rail_defs shared_defs Let_def)

subsection \<open>Default load factors\<close>




subsection \<open>Confidence\<close>

lemma getEmissionFactor_quality:
  assumes "getEmissionFactor eng env m lk d = Inr f"
    and "getEmissionFactor eng env' m lk d = Inr f'"
  shows "scope f = scope f' \<and> region f = region f'"
proof (cases m)
  case road
  with assms show ?thesis
    by (auto simp: road_getEmissionFactor_def road_getDefaultFactor_def Let_def
        split: if_splits option.splits LookupOutcome.splits list.splits)
next
  case rail
  with assms show ?thesis
    by (auto simp: rail_getEmissionFactor_def rail_defaultFactor_def split: option.splits)
next
  case sea
  with assms show ?thesis
    by (auto simp: sea_getEmissionFactor_def sea_defaultFactor_def split: option.splits)
next
  case air
  with assms show ?thesis
    by (auto simp: air_getEmissionFactor_def air_defaultFactor_def split: option.splits)
qed

lemma assessConfidence_cong:
  "scope f = scope f' \<Longrightarrow> region f = region f' \<Longrightarrow>
   assessConfidence d f = assessConfidence d f'"
  by (simp add: assessConfidence_def confidenceScore_def)

text \<open>
  C7, as the program has it. The confidence label of every result is computed by the
  point system on the normalized activity data and the resolved factor, where a number
  counts when it is supplied and not 0, and a region when it is supplied and not
  empty: 2 points each for weight, distance and fuelConsumed, 1 for loadFactor, 1 for
  scope wtw, 1 for a region; high from 7 points, medium from 4, low below. The label of
  a request under a given lookup outcome does not depend on the clock or the random
  source.
\<close>

theorem confidence_point_system:
  assumes "calculate eng env m lk request = Inr r"
  shows "confidence (metadata r) =
           (let d = inputActivityData (input r);
                f = emissionFactor (input r);
                score :: nat =
                  (if truthy (weight d) then 2 else 0) +
                  (if truthy (distance d) then 2 else 0) +
                  (if truthy (fuelConsumed d) then 2 else 0) +
                  (if truthySlot (loadFactor d) then 1 else 0) +
                  (if scope f = wtw then 1 else 0) +
                  (if truthyStr (region f) then 1 else 0)
            in if score \<ge> 7 then high else if score \<ge> 4 then medium else low) \<and>
         (\<forall>env' r'. calculate eng env' m lk request = Inr r' \<longrightarrow>
            confidence (metadata r') = confidence (metadata r))"
proof -
  from assms obtain factor nd em where
    f: "getEmissionFactor eng env m lk (activityData request) = Inr factor" and
    n: "normalizeActivityData eng m (activityData request) = Inr nd" and
    b: "buildResult env m nd factor em request = Inr r"
    by (rule calculate_InrE)
  have c: "confidence (metadata r) = assessConfidence nd factor"
    using buildResult_Inr(6)[OF b] .
  have "confidence (metadata r') = confidence (metadata r)"
    if r': "calculate eng env' m lk request = Inr r'" for env' r'
  proof -
    from r' obtain factor' nd' em' where
      f': "getEmissionFactor eng env' m lk (activityData request) = Inr factor'" and
      n': "normalizeActivityData eng m (activityData request) = Inr nd'" and
      b': "buildResult env' m nd' factor' em' request = Inr r'"
      by (rule calculate_InrE)
    from n n' have "nd' = nd" by simp
    moreover from getEmissionFactor_quality[OF f f']
    have "assessConfidence nd factor = assessConfidence nd factor'"
      by (intro assessConfidence_cong) simp_all
    ultimately show ?thesis using c buildResult_Inr(6)[OF b'] by simp
  qed
  moreover have "confidence (metadata r) =
           (let d = inputActivityData (input r);
                f = emissionFactor (input r);
                score :: nat =
                  (if truthy (weight d) then 2 else 0) +
                  (if truthy (distance d) then 2 else 0) +
                  (if truthy (fuelConsumed d) then 2 else 0) +
                  (if truthySlot (loadFactor d) then 1 else 0) +
                  (if scope f = wtw then 1 else 0) +
                  (if truthyStr (region f) then 1 else 0)
            in if score \<ge> 7 then high else if score \<ge> 4 then medium else low)"
    using c buildResult_Inr(4,5)[OF b]
    by (simp add: assessConfidence_def confidenceScore_def Let_def add_ac)
  ultimately show ?thesis by blast
qed

theorem confidence_point_system_witness:
  "\<exists>r. calculate asciiEngine exampleEnv road Rejected (requestOf zeroFuelTruck) = Inr r \<and>
       confidence (metadata r) = medium"
proof -
  have "validateInput road (activityData (requestOf zeroFuelTruck)) = []"
    by (simp add: example_defs zeroFuelTruck_def js_defs road_defs)
  then obtain r where
    r: "calculate asciiEngine exampleEnv road Rejected (requestOf zeroFuelTruck) = Inr r"
    using calculate_succeeds by blast
  then have "weight (inputActivityData (input r)) = Some 25"
    "distance (inputActivityData (input r)) = Some 500"
    "fuelConsumed (inputActivityData (input r)) = Some 0"
    "loadFactor (inputActivityData (input r)) = Some (Val 0.7)"
    "scope (emissionFactor (input r)) = wtw"
    "region (emissionFactor (input r)) = None"
    by (auto simp: example_defs zeroFuelTruck_def js_defs road_defs shared_defs Let_def)
  with confidence_point_system[OF r] r show ?thesis
    by (auto simp: Let_def truthy_def truthySlot_def truthyStr_def)
qed

text \<open>
  C7 as stated fails for a fuelConsumed that is present and 0: presence gives 7 points
  and the label high, the program gives 6 points and the label medium.
\<close>

theorem confidence_zero_fuel_counterexample:
  "fuelConsumed zeroFuelTruck = Some 0 \<and>
   resultConfidence (calculate asciiEngine exampleEnv road Rejected (requestOf zeroFuelTruck))
     = Some medium \<and>
   map_option (specConfidence zeroFuelTruck)
     (resultFactor (calculate asciiEngine exampleEnv road Rejected (requestOf zeroFuelTruck)))
     = Some high \<and>
   map_option loadFactor
     (resultData (calculate asciiEngine exampleEnv road Rejected (requestOf zeroFuelTruck)))
     = Some (Some (Val 0.7)) \<and>
   map_option fuelConsumed
     (resultData (calculate asciiEngine exampleEnv road Rejected (requestOf zeroFuelTruck)))
     = Some (Some 0) \<and>
   map_option (specConfidence (zeroFuelTruck\<lparr> loadFactor := Some 0.7 \<rparr>))
     (resultFactor (calculate asciiEngine exampleEnv road Rejected (requestOf zeroFuelTruck)))
     = Some high"
  by (simp add: example_defs zeroFuelTruck_def resultOf_def resultConfidence_def
      resultFactor_def resultData_def js_defs road_defs shared_defs specConfidence_def
      present_def Let_def)

subsection \<open>Scenario B\<close>

text \<open>
  C9. A rail calculation with distance 300 km, weight 50 t, no load factor and the
  default factor (0.028 kg/tkm): 15000 tonne-km, base 420, adjusted emissions 525 kg,
  52.5 direct and 472.5 indirect.
\<close>

theorem rail_scenario_B:
  assumes "firstRow lk = None"
  shows "\<exists>r. calculate eng env rail lk (requestOf scenarioB) = Inr r \<and>
             co2Factor (emissionFactor (input r)) = Some 0.028 \<and>
             loadFactor (inputActivityData (input r)) = Some (Val 0.8) \<and>
             tonneKm (inputActivityData (input r)) = Num 15000 \<and>
             nmul (tonneKm (inputActivityData (input r)))
                  (ofOptional (co2Factor (emissionFactor (input r)))) = Num 420 \<and>
             co2 (emissions r) = Num 525 \<and>
             directEmissions (breakdown r) = Num 52.5 \<and>
             indirectEmissions (breakdown r) = Num 472.5"
  using assms
  by (simp add: example_defs js_defs rail_validateInput_def missingOrNotPositive_def
      rail_defaultFactor_def rail_getEmissionFactor_def rail_normalizeActivityData_def
      withLoadFactorOr_def normalizedWith_def tonneKm_def rail_calculateEmissions_def
      buildResult_def calculate_def base_getAssumptions_def Let_def)

theorem rail_scenario_B_witness:
  "firstRow (Resolved None (Some [])) = None \<and>
   (\<exists>r. calculate asciiEngine exampleEnv rail (Resolved None (Some [])) (requestOf scenarioB)
          = Inr r \<and>
        co2 (emissions r) = Num 525 \<and> directEmissions (breakdown r) = Num 52.5 \<and>
        indirectEmissions (breakdown r) = Num 472.5)"
proof -
  have a: "firstRow (Resolved None (Some [])) = None" by (simp add: firstRow_def)
  from rail_scenario_B[OF a, of asciiEngine exampleEnv] a show ?thesis by blast
qed

subsection \<open>Gases other than CO2\<close>

lemma calculateEmissions_no_other_gases:
  assumes "m \<noteq> road" and "calculateEmissions m d factor = Inr em"
  shows "em_total em = em_co2 em \<and> em_ch4 em = None \<and> em_n2o em = None"
  using assms
  by (cases m)
     (auto simp: rail_calculateEmissions_def sea_calculateEmissions_def
        air_calculateEmissions_def Let_def)

text \<open>
  C10. For every successful rail, sea or air calculation, emissions.total equals
  emissions.co2 and the ch4 and n2o components are absent; the road calculator does
  produce CH4 and N2O masses and a total that differs from the CO2 mass.
\<close>

theorem only_road_has_other_gases:
  "(m \<noteq> road \<and> calculate eng env m lk request = Inr r \<longrightarrow>
      totalCO2e (emissions r) = co2 (emissions r) \<and>
      ch4 (emissions r) = None \<and> n2o (emissions r) = None) \<and>
   resultCO2 (calculate asciiEngine exampleEnv road tkmLookup (requestOf loadedRoad))
     = Some (Num 200) \<and>
   resultCH4 (calculate asciiEngine exampleEnv road tkmLookup (requestOf loadedRoad))
     = Some (Some (Num 0.05)) \<and>
   resultN2O (calculate asciiEngine exampleEnv road tkmLookup (requestOf loadedRoad))
     = Some (Some (Num 0.005)) \<and>
   resultTotal (calculate asciiEngine exampleEnv road tkmLookup (requestOf loadedRoad))
     = Some (Num 202.725)"
proof -
  have "totalCO2e (emissions r) = co2 (emissions r) \<and>
        ch4 (emissions r) = None \<and> n2o (emissions r) = None"
    if "m \<noteq> road" and c: "calculate eng env m lk request = Inr r"
  proof -
    from c obtain factor nd em where
      em: "calculateEmissions m nd factor = Inr em" and
      b: "buildResult env m nd factor em request = Inr r"
      by (rule calculate_InrE)
    from calculateEmissions_no_other_gases[OF that(1) em] buildResult_Inr(1)[OF b]
    show ?thesis by simp
  qed
  moreover have
    "resultCO2 (calculate asciiEngine exampleEnv road tkmLookup (requestOf loadedRoad))
       = Some (Num 200) \<and>
     resultCH4 (calculate asciiEngine exampleEnv road tkmLookup (requestOf loadedRoad))
       = Some (Some (Num 0.05)) \<and>
     resultN2O (calculate asciiEngine exampleEnv road tkmLookup (requestOf loadedRoad))
       = Some (Some (Num 0.005)) \<and>
     resultTotal (calculate asciiEngine exampleEnv road tkmLookup (requestOf loadedRoad))
       = Some (Num 202.725)"
    by (simp add: example_defs tkmRow_def tkmLookup_def loadedRoad_def resultOf_def
        resultCO2_def resultCH4_def resultN2O_def resultTotal_def js_defs road_defs
        shared_defs Let_def)
  ultimately show ?thesis by blast
qed

theorem only_road_has_other_gases_witness:
  "\<exists>r. calculate asciiEngine exampleEnv air Rejected
          (requestOf (scenarioB\<lparr>transportMode := air\<rparr>)) = Inr r \<and>
       totalCO2e (emissions r) = co2 (emissions r) \<and>
       ch4 (emissions r) = None \<and> n2o (emissions r) = None"
proof -
  have "validateInput air (activityData (requestOf (scenarioB\<lparr>transportMode := air\<rparr>))) = []"
    by (simp add: example_defs air_validateInput_def missingOrNotPositive_def)
  then obtain r where
    r: "calculate asciiEngine exampleEnv air Rejected
          (requestOf (scenarioB\<lparr>transportMode := air\<rparr>)) = Inr r"
    using calculate_succeeds by blast
  have "air \<noteq> road" by simp
  with only_road_has_other_gases[of air asciiEngine exampleEnv Rejected
      "requestOf (scenarioB\<lparr>transportMode := air\<rparr>)" r] r
  show ?thesis by blast
qed

subsection \<open>The batch route\<close>

lemma foldl_nadd_Num: "foldl nadd (Num a) (map Num xs) = Num (a + sum_list xs)"
  by (induction xs arbitrary: a) (simp_all add: add.assoc)

lemma processCalculations_enumerate:
  "processCalculations eng w reqs i rs es =
     (rs @ map (\<lambda>(k, rq). (k, projr (processItem eng w k rq)))
             (filter (\<lambda>(k, rq). \<not> isl (processItem eng w k rq)) (enumerate i reqs)),
      es @ map (\<lambda>(k, rq). \<lparr> index = k, err = errorMessage (projl (processItem eng w k rq)) \<rparr>)
             (filter (\<lambda>(k, rq). isl (processItem eng w k rq)) (enumerate i reqs)))"
  by (induction reqs arbitrary: i rs es) (auto split: sum.splits)

lemma enumerate_nth: "enumerate 0 xs = map (\<lambda>k. (k, xs ! k)) [0..<length xs]"
  by (rule nth_equalityI) (simp_all add: nth_enumerate_eq)

lemma processCalculations_indexed:
  "processCalculations eng w reqs 0 [] [] =
     (map (\<lambda>k. (k, projr (processItem eng w k (reqs ! k))))
        (filter (\<lambda>k. \<not> isl (processItem eng w k (reqs ! k))) [0..<length reqs]),
      map (\<lambda>k. \<lparr> index = k, err = errorMessage (projl (processItem eng w k (reqs ! k))) \<rparr>)
        (filter (\<lambda>k. isl (processItem eng w k (reqs ! k))) [0..<length reqs]))"
  by (simp add: processCalculations_enumerate enumerate_nth filter_map comp_def)

lemma length_filter_split:
  "length (filter P xs) + length (filter (\<lambda>x. \<not> P x) xs) = length xs"
  by (induction xs) simp_all

lemma exampleBatch_schema: "batchCalculationSchema exampleBatch"
  by (simp add: exampleBatch_def batchCalculationSchema_def calculationRequestSchema_def
      activityDataSchema_def vehicleSchema_def optionalNonnegative_def optionalInRange_def
      example_defs weightlessTrain_def)

lemma zeroDistanceBatch_schema: "\<not> batchCalculationSchema zeroDistanceBatch"
  by (simp add: zeroDistanceBatch_def batchCalculationSchema_def calculationRequestSchema_def
      activityDataSchema_def example_defs zeroDistanceTruck_def)

lemma exampleBatch_items:
  "\<not> isl (processItem asciiEngine offlineWorld 0 (calculations exampleBatch ! 0))"
  "isl (processItem asciiEngine offlineWorld 1 (calculations exampleBatch ! 1))"
  "\<not> isl (processItem asciiEngine offlineWorld 2 (calculations exampleBatch ! 2))"
  by (simp_all add: exampleBatch_def offlineWorld_def processItem_def example_defs
      weightlessTrain_def js_defs
      road_defs rail_defs shared_defs Let_def)

lemma aggregateOf_total:
  "totalEmissions (aggregateOf results) =
     foldl nadd (Num 0) (map (\<lambda>r. totalCO2e (emissions r)) (map snd results))"
  by (simp add: aggregateOf_def foldl_map)

lemma sum_numbers: "ts = map Num xs \<Longrightarrow> foldl nadd (Num 0) ts = Num (sum_list xs)"
  using foldl_nadd_Num[of 0 xs] by simp

text \<open>
  C8, as the program has it. A batch that the request schema refuses (no request, more
  than 100 requests, or a request that fails the schema of a single calculation) is
  answered 400 as a whole. For every batch that the schema accepts, every item is
  processed, in input order: the successful results are those of the succeeding
  indices, in order; the errors are those of the failing indices, in order, each with
  its own index and message; and when aggregateResults is set and an item succeeded,
  aggregate.totalEmissions is the sum of emissions.total over the successful items,
  added from left to right starting from 0.
\<close>

theorem batch_partial_failure:
  "(\<not> batchCalculationSchema body \<longrightarrow> batchHandler eng w body = Inl BadRequest) \<and>
   (batchCalculationSchema body \<longrightarrow>
    (\<exists>resp. batchHandler eng w body = Inr resp \<and>
           individual resp =
             map (\<lambda>i. projr (processItem eng w i (calculations body ! i)))
               (filter (\<lambda>i. \<not> isl (processItem eng w i (calculations body ! i)))
                  [0..<length (calculations body)]) \<and>
           (case errors resp of None \<Rightarrow> [] | Some es \<Rightarrow> es) =
             map (\<lambda>i. \<lparr> index = i,
                         err = errorMessage
                                 (projl (processItem eng w i (calculations body ! i))) \<rparr>)
               (filter (\<lambda>i. isl (processItem eng w i (calculations body ! i)))
                  [0..<length (calculations body)]) \<and>
           successful (summary resp) + failed (summary resp) = length (calculations body) \<and>
           (aggregateRequested body \<and> individual resp \<noteq> [] \<longrightarrow>
              (\<exists>a. aggregate resp = Some a \<and>
                   totalEmissions a =
                     foldl nadd (Num 0)
                       (map (\<lambda>r. totalCO2e (emissions r)) (individual resp)) \<and>
                   (\<forall>xs. map (\<lambda>r. totalCO2e (emissions r)) (individual resp) = map Num xs
                      \<longrightarrow> totalEmissions a = Num (sum_list xs))))))"
proof (intro conjI impI)
  assume "\<not> batchCalculationSchema body"
  then show "batchHandler eng w body = Inl BadRequest"
    by (simp add: batchHandler_def)
next
  assume schema: "batchCalculationSchema body"
  let ?reqs = "calculations body"
  let ?ok = "filter (\<lambda>i. \<not> isl (processItem eng w i (?reqs ! i))) [0..<length ?reqs]"
  let ?bad = "filter (\<lambda>i. isl (processItem eng w i (?reqs ! i))) [0..<length ?reqs]"
  define results where
    "results = map (\<lambda>k. (k, projr (processItem eng w k (?reqs ! k)))) ?ok"
  define errs where
    "errs = map (\<lambda>k. \<lparr> index = k,
                          err = errorMessage (projl (processItem eng w k (?reqs ! k))) \<rparr>) ?bad"
  define resp where
    "resp = \<lparr> individual = map snd results,
              aggregate = (if aggregateRequested body \<and> length results > 0
                           then Some (aggregateOf results) else None),
              errors = (if length errs > 0 then Some errs else None),
              summary = \<lparr> totalRequests = length ?reqs, successful = length results,
                          failed = length errs \<rparr> \<rparr>"
  have h: "batchHandler eng w body = Inr resp"
    using schema
    by (simp add: batchHandler_def processCalculations_indexed resp_def results_def errs_def)
  have i: "individual resp = map (\<lambda>i. projr (processItem eng w i (?reqs ! i))) ?ok"
    by (simp add: resp_def results_def comp_def)
  have e: "(case errors resp of None \<Rightarrow> [] | Some es \<Rightarrow> es) = errs"
    by (simp add: resp_def)
  have s: "successful (summary resp) + failed (summary resp) = length ?reqs"
    using length_filter_split[of "\<lambda>i. isl (processItem eng w i (?reqs ! i))"
        "[0..<length ?reqs]"]
    by (simp add: resp_def results_def errs_def)
  have a: "\<exists>a. aggregate resp = Some a \<and>
               totalEmissions a =
                 foldl nadd (Num 0) (map (\<lambda>r. totalCO2e (emissions r)) (individual resp)) \<and>
               (\<forall>xs. map (\<lambda>r. totalCO2e (emissions r)) (individual resp) = map Num xs
                  \<longrightarrow> totalEmissions a = Num (sum_list xs))"
    if req: "aggregateRequested body \<and> individual resp \<noteq> []"
  proof -
    have ind: "individual resp = map snd results" by (simp add: resp_def)
    from req ind have ne: "results \<noteq> []" by auto
    have g: "aggregate resp = Some (aggregateOf results)"
      using req ne by (simp add: resp_def)
    have t: "totalEmissions (aggregateOf results) =
             foldl nadd (Num 0) (map (\<lambda>r. totalCO2e (emissions r)) (individual resp))"
      unfolding ind by (rule aggregateOf_total)
    have n: "\<forall>xs. map (\<lambda>r. totalCO2e (emissions r)) (individual resp) = map Num xs
                  \<longrightarrow> totalEmissions (aggregateOf results) = Num (sum_list xs)"
    proof (intro allI impI)
      fix xs
      assume "map (\<lambda>r. totalCO2e (emissions r)) (individual resp) = map Num xs"
      from sum_numbers[OF this] show "totalEmissions (aggregateOf results) = Num (sum_list xs)"
        unfolding t .
    qed
    show ?thesis
    proof (intro exI conjI)
      show "aggregate resp = Some (aggregateOf results)" by (rule g)
      show "totalEmissions (aggregateOf results) =
             foldl nadd (Num 0) (map (\<lambda>r. totalCO2e (emissions r)) (individual resp))"
        by (rule t)
      show "\<forall>xs. map (\<lambda>r. totalCO2e (emissions r)) (individual resp) = map Num xs
                  \<longrightarrow> totalEmissions (aggregateOf results) = Num (sum_list xs)"
        by (rule n)
    qed
  qed
  show "\<exists>resp. batchHandler eng w body = Inr resp \<and>
           individual resp =
             map (\<lambda>i. projr (processItem eng w i (calculations body ! i)))
               (filter (\<lambda>i. \<not> isl (processItem eng w i (calculations body ! i)))
                  [0..<length (calculations body)]) \<and>
           (case errors resp of None \<Rightarrow> [] | Some es \<Rightarrow> es) =
             map (\<lambda>i. \<lparr> index = i,
                         err = errorMessage
                                 (projl (processItem eng w i (calculations body ! i))) \<rparr>)
               (filter (\<lambda>i. isl (processItem eng w i (calculations body ! i)))
                  [0..<length (calculations body)]) \<and>
           successful (summary resp) + failed (summary resp) = length (calculations body) \<and>
           (aggregateRequested body \<and> individual resp \<noteq> [] \<longrightarrow>
              (\<exists>a. aggregate resp = Some a \<and>
                   totalEmissions a =
                     foldl nadd (Num 0)
                       (map (\<lambda>r. totalCO2e (emissions r)) (individual resp)) \<and>
                   (\<forall>xs. map (\<lambda>r. totalCO2e (emissions r)) (individual resp) = map Num xs
                      \<longrightarrow> totalEmissions a = Num (sum_list xs))))"
  proof (intro exI[of _ resp] conjI impI)
    show "batchHandler eng w body = Inr resp" by (rule h)
    show "individual resp = map (\<lambda>i. projr (processItem eng w i (?reqs ! i))) ?ok"
      by (rule i)
    show "(case errors resp of None \<Rightarrow> [] | Some es \<Rightarrow> es) =
            map (\<lambda>i. \<lparr> index = i,
                         err = errorMessage
                                 (projl (processItem eng w i (calculations body ! i))) \<rparr>) ?bad"
      using e unfolding errs_def .
    show "successful (summary resp) + failed (summary resp) = length ?reqs" by (rule s)
    assume "aggregateRequested body \<and> individual resp \<noteq> []"
    then show "\<exists>a. aggregate resp = Some a \<and>
               totalEmissions a =
                 foldl nadd (Num 0) (map (\<lambda>r. totalCO2e (emissions r)) (individual resp)) \<and>
               (\<forall>xs. map (\<lambda>r. totalCO2e (emissions r)) (individual resp) = map Num xs
                  \<longrightarrow> totalEmissions a = Num (sum_list xs))"
      by (rule a)
  qed
qed

theorem batch_partial_failure_witness:
  "batchCalculationSchema exampleBatch \<and>
   (\<exists>resp. batchHandler asciiEngine offlineWorld exampleBatch = Inr resp \<and>
      length (individual resp) = 2 \<and>
      map index (case errors resp of None \<Rightarrow> [] | Some es \<Rightarrow> es) = [1] \<and>
      (\<exists>a. aggregate resp = Some a \<and>
           totalEmissions a =
             foldl nadd (Num 0) (map (\<lambda>r. totalCO2e (emissions r)) (individual resp)))) \<and>
   \<not> batchCalculationSchema zeroDistanceBatch \<and>
   batchHandler asciiEngine offlineWorld zeroDistanceBatch = Inl BadRequest"
proof -
  have n: "[0..<length (calculations exampleBatch)] = [0, 1, 2]"
    by (simp add: exampleBatch_def upt_rec)
  have g: "aggregateRequested exampleBatch"
    by (simp add: aggregateRequested_def exampleBatch_def truthyBool_def)
  from batch_partial_failure[of exampleBatch asciiEngine offlineWorld] exampleBatch_schema
  obtain resp where resp: "batchHandler asciiEngine offlineWorld exampleBatch = Inr resp"
    and i: "individual resp =
             map (\<lambda>i. projr (processItem asciiEngine offlineWorld i (calculations exampleBatch ! i)))
               (filter (\<lambda>i. \<not> isl (processItem asciiEngine offlineWorld i
                                      (calculations exampleBatch ! i)))
                  [0..<length (calculations exampleBatch)])"
    and e: "(case errors resp of None \<Rightarrow> [] | Some es \<Rightarrow> es) =
             map (\<lambda>i. \<lparr> index = i,
                         err = errorMessage (projl (processItem asciiEngine offlineWorld i
                                 (calculations exampleBatch ! i))) \<rparr>)
               (filter (\<lambda>i. isl (processItem asciiEngine offlineWorld i
                                    (calculations exampleBatch ! i)))
                  [0..<length (calculations exampleBatch)])"
    and a: "aggregateRequested exampleBatch \<and> individual resp \<noteq> [] \<longrightarrow>
              (\<exists>a. aggregate resp = Some a \<and>
                   totalEmissions a =
                     foldl nadd (Num 0)
                       (map (\<lambda>r. totalCO2e (emissions r)) (individual resp)) \<and>
                   (\<forall>xs. map (\<lambda>r. totalCO2e (emissions r)) (individual resp) = map Num xs
                      \<longrightarrow> totalEmissions a = Num (sum_list xs)))"
    by blast
  have l: "length (individual resp) = 2"
    unfolding i n using exampleBatch_items by simp
  have x: "map index (case errors resp of None \<Rightarrow> [] | Some es \<Rightarrow> es) = [1]"
    unfolding e n using exampleBatch_items by simp
  from l have "individual resp \<noteq> []" by auto
  with a g obtain ag where ag: "aggregate resp = Some ag"
    "totalEmissions ag =
       foldl nadd (Num 0) (map (\<lambda>r. totalCO2e (emissions r)) (individual resp))"
    by blast
  have z: "batchHandler asciiEngine offlineWorld zeroDistanceBatch = Inl BadRequest"
    using batch_partial_failure[of zeroDistanceBatch asciiEngine offlineWorld]
      zeroDistanceBatch_schema by blast
  show ?thesis
  proof (intro conjI exI)
    show "batchCalculationSchema exampleBatch" by (rule exampleBatch_schema)
    show "batchHandler asciiEngine offlineWorld exampleBatch = Inr resp" by (rule resp)
    show "length (individual resp) = 2" by (rule l)
    show "map index (case errors resp of None \<Rightarrow> [] | Some es \<Rightarrow> es) = [1]" by (rule x)
    show "aggregate resp = Some ag" by (rule ag(1))
    show "totalEmissions ag =
       foldl nadd (Num 0) (map (\<lambda>r. totalCO2e (emissions r)) (individual resp))"
      by (rule ag(2))
    show "\<not> batchCalculationSchema zeroDistanceBatch" by (rule zeroDistanceBatch_schema)
    show "batchHandler asciiEngine offlineWorld zeroDistanceBatch = Inl BadRequest" by (rule z)
  qed
qed

text \<open>
  C8 as stated fails: a batch of three requests whose second item has distance 0 is
  refused as a whole with status 400, although the calculator would report that item
  as a failure of its own and would succeed on the item after it. No error with index 1
  is captured and the third item is not processed.
\<close>

theorem batch_schema_rejection_counterexample:
  "length (calculations zeroDistanceBatch) = 3 \<and>
   isl (processItem asciiEngine offlineWorld 1 (calculations zeroDistanceBatch ! 1)) \<and>
   \<not> isl (processItem asciiEngine offlineWorld 2 (calculations zeroDistanceBatch ! 2)) \<and>
   batchStatus (batchHandler asciiEngine offlineWorld zeroDistanceBatch) = Some BadRequest"
proof -
  have "length (calculations zeroDistanceBatch) = 3"
    by (simp add: zeroDistanceBatch_def)
  moreover have
    "isl (processItem asciiEngine offlineWorld 1 (calculations zeroDistanceBatch ! 1))"
    by (simp add: zeroDistanceBatch_def offlineWorld_def processItem_def example_defs
        zeroDistanceTruck_def js_defs road_defs shared_defs Let_def)
  moreover have
    "\<not> isl (processItem asciiEngine offlineWorld 2 (calculations zeroDistanceBatch ! 2))"
    by (simp add: zeroDistanceBatch_def offlineWorld_def processItem_def example_defs
        js_defs road_defs shared_defs Let_def)
  moreover have
    "batchStatus (batchHandler asciiEngine offlineWorld zeroDistanceBatch) = Some BadRequest"
    by (simp add: batchHandler_def batchStatus_def zeroDistanceBatch_def
        batchCalculationSchema_def calculationRequestSchema_def activityDataSchema_def
        example_defs zeroDistanceTruck_def)
  ultimately show ?thesis by blast
qed

end
